theory Spec2Isabelle
  imports Complex_Main "HOL-Library.AList"
begin

section \<open>Python values shared by the model\<close>

text \<open>
  Exceptions of the Python source are values: every function that can raise returns
  \<open>py_error + 'a\<close>, with \<open>Inl\<close> for the exception.
\<close>

datatype py_error =
  AttributeError | KeyError | ValueError | RuntimeError | IndexError
  | AssertionError | TypeError

subsection \<open>Strings\<close>

text \<open>\<^verbatim>\<open>s.startswith(p)\<close>\<close>

definition startswith :: "string \<Rightarrow> string \<Rightarrow> bool" where
  "startswith s p = (take (length p) s = p)"

text \<open>\<^verbatim>\<open>sub in s\<close> for strings: \<open>sub\<close> occurs at some position of \<open>s\<close>.\<close>

fun contains :: "string \<Rightarrow> string \<Rightarrow> bool" where
  "contains sub [] = (sub = [])"
| "contains sub (c # cs) = (startswith (c # cs) sub \<or> contains sub cs)"

text \<open>
  \<^verbatim>\<open>s.replace(old, new)\<close> for a non-empty \<open>old\<close>, as at every call of the source: the
  occurrences of \<open>old\<close> are replaced from the left, without overlap. The counter is the
  number of characters of a matched occurrence still to be skipped.
\<close>

fun replace_from :: "nat \<Rightarrow> string \<Rightarrow> string \<Rightarrow> string \<Rightarrow> string" where
  "replace_from skip old new [] = []"
| "replace_from (Suc skip) old new (c # cs) = replace_from skip old new cs"
| "replace_from 0 old new (c # cs) =
     (if startswith (c # cs) old then new @ replace_from (length old - 1) old new cs
      else c # replace_from 0 old new cs)"

definition replace :: "string \<Rightarrow> string \<Rightarrow> string \<Rightarrow> string" where
  "replace old new s = replace_from 0 old new s"

text \<open>\<^verbatim>\<open>str(n)\<close> of a natural number: its decimal digits.\<close>

fun str_nat :: "nat \<Rightarrow> string" where
  "str_nat n = (if n < 10 then [''0123456789'' ! n]
                else str_nat (n div 10) @ [''0123456789'' ! (n mod 10)])"

declare str_nat.simps [simp del]

subsection \<open>Exceptions in sequence\<close>

text \<open>Run \<open>m\<close>; on a value continue with \<open>f\<close>, on an exception stop with it.\<close>

definition bind :: "py_error + 'a \<Rightarrow> ('a \<Rightarrow> py_error + 'b) \<Rightarrow> py_error + 'b" where
  "bind m f = (case m of Inl e \<Rightarrow> Inl e | Inr x \<Rightarrow> f x)"

subsection \<open>Dictionaries\<close>

text \<open>
  A Python \<open>dict\<close> keeps its keys in insertion order, and \<open>convert_state_dict\<close> reads
  the first key, so a dictionary is an association list in insertion order. Python's
  dictionaries hold every key once: \<open>is_dict\<close>.

  \<^item> \<open>d[k] = v\<close> is \<open>AList.update k v d\<close>: the value is replaced in place when the key
    is there, and the pair is appended otherwise;
  \<^item> \<open>k in d\<close> is \<open>has_key d k\<close>; \<open>d.get(k, None)\<close> is \<open>map_of d k\<close>;
  \<^item> \<open>d.pop(k)\<close> is \<open>dict_pop d k\<close>: it raises KeyError on a missing key.
\<close>

type_synonym 'v pydict = "(string \<times> 'v) list"

definition is_dict :: "'v pydict \<Rightarrow> bool" where
  "is_dict d = distinct (map fst d)"

definition has_key :: "'v pydict \<Rightarrow> string \<Rightarrow> bool" where
  "has_key d k = (map_of d k \<noteq> None)"

definition dict_pop :: "'v pydict \<Rightarrow> string \<Rightarrow> py_error + ('v \<times> 'v pydict)" where
  "dict_pop d k = (case map_of d k of None \<Rightarrow> Inl KeyError
                   | Some v \<Rightarrow> Inr (v, AList.delete k d))"

section \<open>restore\_model: merging the two checkpoints\<close>

text \<open>
  Lines 634 to 646 of \<open>restore_model\<close>:
  \<^verbatim>\<open>
    merged_state_dict = {}
    if clip_state_dict is not None:
        for k, v in clip_state_dict.items():
            if k.startswith("visual") or k == "logit_scale":
                merged_state_dict[k] = v
    if bert_state_dict is not None:
        for k, v in bert_state_dict.items():
            if k.startswith("bert") and "bert.pooler" not in k:
                merged_state_dict[k] = v
  \<close>
  Each loop is a fold over the items of its dictionary; an absent dictionary
  (\<open>None\<close>) is skipped.
\<close>

definition keep_clip_key :: "string \<Rightarrow> bool" where
  "keep_clip_key k = (startswith k ''visual'' \<or> k = ''logit_scale'')"

definition keep_bert_key :: "string \<Rightarrow> bool" where
  "keep_bert_key k = (startswith k ''bert'' \<and> \<not> contains ''bert.pooler'' k)"

definition merge_items :: "(string \<Rightarrow> bool) \<Rightarrow> 'v pydict \<Rightarrow> 'v pydict \<Rightarrow> 'v pydict" where
  "merge_items keep items merged =
     fold (\<lambda>(k, v) m. if keep k then AList.update k v m else m) items merged"

definition merged_state_dict :: "'v pydict option \<Rightarrow> 'v pydict option \<Rightarrow> 'v pydict" where
  "merged_state_dict clip_state_dict bert_state_dict =
     (let merged = [];
          merged = (case clip_state_dict of None \<Rightarrow> merged
                    | Some c \<Rightarrow> merge_items keep_clip_key c merged);
          merged = (case bert_state_dict of None \<Rightarrow> merged
                    | Some b \<Rightarrow> merge_items keep_bert_key b merged)
      in merged)"

text \<open>\<open>d.get(k)\<close> on a dictionary that may be \<open>None\<close>.\<close>

definition lookup_opt :: "'v pydict option \<Rightarrow> string \<Rightarrow> 'v option" where
  "lookup_opt d k = (case d of None \<Rightarrow> None | Some d' \<Rightarrow> map_of d' k)"

definition valid_dict_opt :: "'v pydict option \<Rightarrow> bool" where
  "valid_dict_opt d = (case d of None \<Rightarrow> True | Some d' \<Rightarrow> is_dict d')"

section \<open>Tensors of a state dict\<close>

text \<open>
  A tensor stored in a state dict or held by a parameter: its element type, its shape and
  its elements in row-major order. Elements are real numbers; what rounding a change of
  element type does to them is a parameter of the functions that change it.
\<close>

datatype dtype = Float16 | Float32

record tensor =
  dtype :: dtype
  shape :: "nat list"
  elems :: "real list"

definition numel :: "tensor \<Rightarrow> nat" where
  "numel t = prod_list (shape t)"

text \<open>Elements per index of dimension 0.\<close>

definition row_size :: "tensor \<Rightarrow> nat" where
  "row_size t = prod_list (tl (shape t))"

text \<open>
  \<^verbatim>\<open>t[a:b]\<close> on dimension 0, for \<open>a \<le> b\<close> given as naturals; Python clips a slice to
  the tensor, and a tensor of rank 0 cannot be sliced.
\<close>

definition slice0 :: "nat \<Rightarrow> nat \<Rightarrow> tensor \<Rightarrow> py_error + tensor" where
  "slice0 a b t =
     (case shape t of
        [] \<Rightarrow> Inl IndexError
      | n # rest \<Rightarrow>
          let a' = min a n; b' = max a' (min b n) in
          Inr (t\<lparr>shape := (b' - a') # rest,
                 elems := take ((b' - a') * row_size t) (drop (a' * row_size t) (elems t))\<rparr>))"

text \<open>
  \<^verbatim>\<open>torch.cat(ts)\<close> on dimension 0. One-dimensional empty tensors (shape \<open>[0]\<close>) are
  skipped, as torch does; the others need rank at least 1 and equal sizes outside
  dimension 0. The result has the widest element type of its inputs.
\<close>

definition promote :: "dtype \<Rightarrow> dtype \<Rightarrow> dtype" where
  "promote a b = (if a = Float32 \<or> b = Float32 then Float32 else Float16)"

definition cat0 :: "tensor list \<Rightarrow> py_error + tensor" where
  "cat0 ts =
     (case ts of
        [] \<Rightarrow> Inl RuntimeError
      | t0 # _ \<Rightarrow>
          let dt = fold promote (map dtype ts) Float16;
              us = filter (\<lambda>t. shape t \<noteq> [0]) ts in
          (case us of
             [] \<Rightarrow> Inr \<lparr>dtype = dt, shape = [0], elems = []\<rparr>
           | u # _ \<Rightarrow>
               if list_ex (\<lambda>t. shape t = []) us then Inl RuntimeError
               else if list_ex (\<lambda>t. tl (shape t) \<noteq> tl (shape u)) us then Inl RuntimeError
               else Inr \<lparr>dtype = dt,
                         shape = sum_list (map (\<lambda>t. hd (shape t)) us) # tl (shape u),
                         elems = concat (map elems us)\<rparr>))"

text \<open>
  \<^verbatim>\<open>torch.chunk(t, chunks=3)\<close> on dimension 0: pieces of \<open>ceil(n / 3)\<close> indices, the
  last one possibly shorter, so fewer than three pieces when \<open>n\<close> is 1, 2 or 4; an empty
  dimension gives three empty pieces.
\<close>

definition chunk3 :: "tensor \<Rightarrow> py_error + tensor list" where
  "chunk3 t =
     (case shape t of
        [] \<Rightarrow> Inl RuntimeError
      | n # rest \<Rightarrow>
          let sz = (n + 2) div 3 in
          if n = 0 then Inr [t, t, t]
          else Inr (map (\<lambda>j. t\<lparr>shape := min sz (n - j * sz) # rest,
                                 elems := take (min sz (n - j * sz) * row_size t)
                                            (drop (j * sz * row_size t) (elems t))\<rparr>)
                      [0 ..< (n + sz - 1) div sz]))"

text \<open>\<^verbatim>\<open>a, b, c = xs\<close>\<close>

definition unpack3 :: "'a list \<Rightarrow> py_error + ('a \<times> 'a \<times> 'a)" where
  "unpack3 xs = (case xs of [a, b, c] \<Rightarrow> Inr (a, b, c) | _ \<Rightarrow> Inl ValueError)"

text \<open>
  \<^verbatim>\<open>bool(t)\<close>, as \<^verbatim>\<open>if p.grad:\<close> evaluates it: the truth value of the only element; a
  tensor with another number of elements has no truth value.
\<close>

definition tensor_bool :: "tensor \<Rightarrow> py_error + bool" where
  "tensor_bool t = (if numel t = 1 then Inr (hd (elems t) \<noteq> 0) else Inl RuntimeError)"

text \<open>
  \<^verbatim>\<open>t.half()\<close> and \<^verbatim>\<open>t.float()\<close>. \<open>rnd\<close> is the rounding of a single-precision value
  to half precision; every half-precision value is a single-precision value, and a
  conversion to the type a tensor already has returns the tensor.
\<close>

definition half :: "(real \<Rightarrow> real) \<Rightarrow> tensor \<Rightarrow> tensor" where
  "half rnd t = (if dtype t = Float16 then t
                 else t\<lparr>dtype := Float16, elems := map rnd (elems t)\<rparr>)"

definition float :: "tensor \<Rightarrow> tensor" where
  "float t = t\<lparr>dtype := Float32\<rparr>"

section \<open>convert\_state\_dict\<close>

text \<open>
  The function mutates \<open>state_dict\<close> and returns it; the model returns the new dictionary,
  or the exception that stopped the conversion.

  The statement \<^verbatim>\<open>state_dict[new] = state_dict.pop(k)\<close> pops first and assigns second.
\<close>

definition rename_key :: "string \<Rightarrow> string \<Rightarrow> 'v pydict \<Rightarrow> py_error + 'v pydict" where
  "rename_key k new d = bind (dict_pop d k) (\<lambda>(v, d). Inr (AList.update new v d))"

text \<open>
  The loops over the vision keys (lines 666 to 670 and 672 to 676):
  \<^verbatim>\<open>
        for k in list(state_dict.keys()):
            if 'attn.in_proj_weight' in k:
                state_dict[k.replace('attn.in_proj_weight', 'attn.Wqkv.weight')] = state_dict.pop(k)
            elif 'attn.in_proj_bias' in k:
                state_dict[k.replace('attn.in_proj_bias', 'attn.Wqkv.bias')] = state_dict.pop(k)
  \<close>
  \<open>ks\<close> is the list of keys taken before the loop starts.
\<close>

fun rename_loop ::
  "string \<Rightarrow> string \<Rightarrow> string \<Rightarrow> string \<Rightarrow> string list \<Rightarrow> 'v pydict \<Rightarrow> py_error + 'v pydict"
where
  "rename_loop w w' b b' [] d = Inr d"
| "rename_loop w w' b b' (k # ks) d =
     (if contains w k then bind (rename_key k (replace w w' k) d) (rename_loop w w' b b' ks)
      else if contains b k then bind (rename_key k (replace b b' k) d) (rename_loop w w' b b' ks)
      else rename_loop w w' b b' ks d)"

definition convert_visual :: "string \<Rightarrow> 'v pydict \<Rightarrow> py_error + 'v pydict" where
  "convert_visual prefix d =
     (if has_key d (prefix @ ''visual.transformer.resblocks.0.attn.in_proj_weight'') then
        rename_loop ''attn.in_proj_weight'' ''attn.Wqkv.weight''
                    ''attn.in_proj_bias'' ''attn.Wqkv.bias'' (map fst d) d
      else if has_key d (prefix @ ''visual.transformer.resblocks.0.attn.Wqkv.weight'') then
        rename_loop ''attn.Wqkv.weight'' ''attn.in_proj_weight''
                    ''attn.Wqkv.bias'' ''attn.in_proj_bias'' (map fst d) d
      else Inr d)"

text \<open>
  The key \<^verbatim>\<open>f'{prefix}bert.encoder.layer.{i}.attention.{name}'\<close> of text layer \<open>i\<close>.
\<close>

definition layer_key :: "string \<Rightarrow> nat \<Rightarrow> string \<Rightarrow> string" where
  "layer_key prefix i name = prefix @ ''bert.encoder.layer.'' @ str_nat i @ ''.attention.'' @ name"

text \<open>
  One round of the first \<open>while\<close> loop (lines 681 to 694), separate to fused: the three
  pops of a \<open>torch.cat\<close> argument run from left to right, before the concatenation and
  the assignment.
\<close>

definition fuse_layer :: "string \<Rightarrow> nat \<Rightarrow> tensor pydict \<Rightarrow> py_error + tensor pydict" where
  "fuse_layer prefix i d =
     bind (dict_pop d (layer_key prefix i ''self.query.weight'')) (\<lambda>(qw, d).
     bind (dict_pop d (layer_key prefix i ''self.key.weight'')) (\<lambda>(kw, d).
     bind (dict_pop d (layer_key prefix i ''self.value.weight'')) (\<lambda>(vw, d).
     bind (cat0 [qw, kw, vw]) (\<lambda>w.
     let d = AList.update (layer_key prefix i ''self.Wqkv.weight'') w d in
     bind (dict_pop d (layer_key prefix i ''self.query.bias'')) (\<lambda>(qb, d).
     bind (dict_pop d (layer_key prefix i ''self.key.bias'')) (\<lambda>(kb, d).
     bind (dict_pop d (layer_key prefix i ''self.value.bias'')) (\<lambda>(vb, d).
     bind (cat0 [qb, kb, vb]) (\<lambda>b.
     let d = AList.update (layer_key prefix i ''self.Wqkv.bias'') b d in
     bind (dict_pop d (layer_key prefix i ''output.dense.weight'')) (\<lambda>(ow, d).
     let d = AList.update (layer_key prefix i ''self.out_proj.weight'') ow d in
     bind (dict_pop d (layer_key prefix i ''output.dense.bias'')) (\<lambda>(ob, d).
     Inr (AList.update (layer_key prefix i ''self.out_proj.bias'') ob d)))))))))))"

text \<open>
  One round of the second \<open>while\<close> loop (lines 699 to 710), fused to separate. The last
  pop reads the key \<^verbatim>\<open>f'module.bert.encoder.layer.{i}.attention.self.out_proj.bias'\<close>:
  the source writes \<open>module.\<close> there, where every other key of the loop starts with
  \<open>{prefix}\<close>.
\<close>

definition split_layer :: "string \<Rightarrow> nat \<Rightarrow> tensor pydict \<Rightarrow> py_error + tensor pydict" where
  "split_layer prefix i d =
     bind (dict_pop d (layer_key prefix i ''self.Wqkv.weight'')) (\<lambda>(w, d).
     bind (chunk3 w) (\<lambda>ws.
     bind (unpack3 ws) (\<lambda>(qw, kw, vw).
     let d = AList.update (layer_key prefix i ''self.query.weight'') qw d;
         d = AList.update (layer_key prefix i ''self.key.weight'') kw d;
         d = AList.update (layer_key prefix i ''self.value.weight'') vw d in
     bind (dict_pop d (layer_key prefix i ''self.Wqkv.bias'')) (\<lambda>(b, d).
     bind (chunk3 b) (\<lambda>bs.
     bind (unpack3 bs) (\<lambda>(qb, kb, vb).
     let d = AList.update (layer_key prefix i ''self.query.bias'') qb d;
         d = AList.update (layer_key prefix i ''self.key.bias'') kb d;
         d = AList.update (layer_key prefix i ''self.value.bias'') vb d in
     bind (dict_pop d (layer_key prefix i ''self.out_proj.weight'')) (\<lambda>(ow, d).
     let d = AList.update (layer_key prefix i ''output.dense.weight'') ow d in
     bind (dict_pop d (layer_key ''module.'' i ''self.out_proj.bias'')) (\<lambda>(ob, d).
     Inr (AList.update (layer_key prefix i ''output.dense.bias'') ob d)))))))))"

text \<open>
  The two \<open>while\<close> loops over the layer index. Each terminates: a round of the first
  takes eight keys out of the dictionary and puts four in; a round of the second takes
  out a key that ends in \<open>Wqkv.weight\<close> and puts in none that does.
\<close>

lemma bind_cong [fundef_cong]:
  "m = m' \<Longrightarrow> (\<And>x. m' = Inr x \<Longrightarrow> f x = f' x) \<Longrightarrow> bind m f = bind m' f'"
  by (auto simp: bind_def split: sum.splits)

function fuse_loop :: "string \<Rightarrow> nat \<Rightarrow> tensor pydict \<Rightarrow> py_error + tensor pydict" where
  "fuse_loop prefix i d =
     (if has_key d (layer_key prefix i ''self.query.weight'')
      then bind (fuse_layer prefix i d) (fuse_loop prefix (Suc i))
      else Inr d)"
  by pat_completeness auto

function split_loop :: "string \<Rightarrow> nat \<Rightarrow> tensor pydict \<Rightarrow> py_error + tensor pydict" where
  "split_loop prefix i d =
     (if has_key d (layer_key prefix i ''self.Wqkv.weight'')
      then bind (split_layer prefix i d) (split_loop prefix (Suc i))
      else Inr d)"
  by pat_completeness auto

text \<open>
  The measure of each loop: the number of keys with a given ending
  (\<^verbatim>\<open>k.endswith(suf)\<close>).
\<close>

definition endswith :: "string \<Rightarrow> string \<Rightarrow> bool" where
  "endswith s suf = (take (length suf) (rev s) = rev suf)"

definition key_count :: "string \<Rightarrow> 'v pydict \<Rightarrow> nat" where
  "key_count suf d = length (filter (\<lambda>k. endswith k suf) (map fst d))"

lemma key_count_delete_other [simp]:
  "\<not> endswith k suf \<Longrightarrow> key_count suf (AList.delete k d) = key_count suf d"
  unfolding key_count_def delete_keys
  by (induction d) auto

lemma key_count_update_other [simp]:
  "\<not> endswith k suf \<Longrightarrow> key_count suf (AList.update k v d) = key_count suf d"
  unfolding key_count_def update_keys by simp

lemma key_count_delete_le: "key_count suf (AList.delete k d) \<le> key_count suf d"
  unfolding key_count_def delete_keys by (induction d) auto

lemma key_count_delete_less:
  "endswith k suf \<Longrightarrow> map_of d k = Some v \<Longrightarrow>
   key_count suf (AList.delete k d) < key_count suf d"
  unfolding key_count_def delete_keys
proof (induction d)
  case Nil
  then show ?case by simp
next
  case (Cons a d)
  have le: "length (filter (\<lambda>k. endswith k suf) (removeAll k (map fst d)))
            \<le> length (filter (\<lambda>k. endswith k suf) (map fst d))"
    by (induction d) auto
  show ?case
  proof (cases "fst a = k")
    case True
    with Cons.prems le show ?thesis by (auto simp: less_Suc_eq_le)
  next
    case False
    with Cons show ?thesis by (cases a) (auto split: if_splits)
  qed
qed

lemma endswith_layer_key [simp]:
  "length suf \<le> length name \<Longrightarrow> endswith (layer_key prefix i name) suf = endswith name suf"
  by (simp add: endswith_def layer_key_def)

lemma bind_InrE:
  assumes "bind m f = Inr r"
  obtains x where "m = Inr x" "f x = Inr r"
  using assms by (auto simp: bind_def split: sum.splits)

lemma bind_popE:
  assumes "bind (dict_pop d k) f = Inr r"
  obtains v where "map_of d k = Some v" "f (v, AList.delete k d) = Inr r"
  using assms by (auto simp: bind_def dict_pop_def split: sum.splits option.splits)

lemma bind_pop_countE:
  assumes "bind (dict_pop d k) f = Inr r"
  obtains v d1 where "key_count suf d1 \<le> key_count suf d"
    and "endswith k suf \<longrightarrow> key_count suf d1 < key_count suf d"
    and "f (v, d1) = Inr r"
proof -
  from assms obtain v where v: "map_of d k = Some v" and f: "f (v, AList.delete k d) = Inr r"
    by (rule bind_popE)
  show thesis
    using that [of "AList.delete k d" v] key_count_delete_le [of suf k d]
      key_count_delete_less [of k suf d v] v f by blast
qed

lemma ends_query_weight:
  "\<not> endswith ''self.key.weight'' ''query.weight''"
  "\<not> endswith ''self.value.weight'' ''query.weight''"
  "\<not> endswith ''self.query.bias'' ''query.weight''"
  "\<not> endswith ''self.key.bias'' ''query.weight''"
  "\<not> endswith ''self.value.bias'' ''query.weight''"
  "\<not> endswith ''self.Wqkv.weight'' ''query.weight''"
  "\<not> endswith ''self.Wqkv.bias'' ''query.weight''"
  "\<not> endswith ''output.dense.weight'' ''query.weight''"
  "\<not> endswith ''output.dense.bias'' ''query.weight''"
  "\<not> endswith ''self.out_proj.weight'' ''query.weight''"
  "\<not> endswith ''self.out_proj.bias'' ''query.weight''"
  "endswith ''self.query.weight'' ''query.weight''"
  by (simp_all add: endswith_def)

lemma ends_Wqkv_weight:
  "\<not> endswith ''self.key.weight'' ''Wqkv.weight''"
  "\<not> endswith ''self.value.weight'' ''Wqkv.weight''"
  "\<not> endswith ''self.query.weight'' ''Wqkv.weight''"
  "\<not> endswith ''self.query.bias'' ''Wqkv.weight''"
  "\<not> endswith ''self.key.bias'' ''Wqkv.weight''"
  "\<not> endswith ''self.value.bias'' ''Wqkv.weight''"
  "\<not> endswith ''self.Wqkv.bias'' ''Wqkv.weight''"
  "\<not> endswith ''output.dense.weight'' ''Wqkv.weight''"
  "\<not> endswith ''output.dense.bias'' ''Wqkv.weight''"
  "\<not> endswith ''self.out_proj.weight'' ''Wqkv.weight''"
  "\<not> endswith ''self.out_proj.bias'' ''Wqkv.weight''"
  "endswith ''self.Wqkv.weight'' ''Wqkv.weight''"
  by (simp_all add: endswith_def)

lemma fuse_layer_decreases:
  "fuse_layer prefix i d = Inr d' \<Longrightarrow>
   key_count ''query.weight'' d' < key_count ''query.weight'' d"
  unfolding fuse_layer_def Let_def
  apply (erule bind_pop_countE [where suf = "''query.weight''"], simp only: prod.case)
  apply (erule bind_pop_countE [where suf = "''query.weight''"], simp only: prod.case)
  apply (erule bind_pop_countE [where suf = "''query.weight''"], simp only: prod.case)
  apply (erule bind_InrE)
  apply (erule bind_pop_countE [where suf = "''query.weight''"], simp only: prod.case)
  apply (erule bind_pop_countE [where suf = "''query.weight''"], simp only: prod.case)
  apply (erule bind_pop_countE [where suf = "''query.weight''"], simp only: prod.case)
  apply (erule bind_InrE)
  apply (erule bind_pop_countE [where suf = "''query.weight''"], simp only: prod.case)
  apply (erule bind_pop_countE [where suf = "''query.weight''"], simp only: prod.case)
  apply (clarsimp simp: ends_query_weight)
  done

lemma split_layer_decreases:
  "split_layer prefix i d = Inr d' \<Longrightarrow>
   key_count ''Wqkv.weight'' d' < key_count ''Wqkv.weight'' d"
  unfolding split_layer_def Let_def
  apply (erule bind_pop_countE [where suf = "''Wqkv.weight''"], simp only: prod.case)
  apply (erule bind_InrE)
  apply (erule bind_InrE)
  apply (simp only: split_paired_all prod.case)
  apply (erule bind_pop_countE [where suf = "''Wqkv.weight''"], simp only: prod.case)
  apply (erule bind_InrE)
  apply (erule bind_InrE)
  apply (simp only: split_paired_all prod.case)
  apply (erule bind_pop_countE [where suf = "''Wqkv.weight''"], simp only: prod.case)
  apply (erule bind_pop_countE [where suf = "''Wqkv.weight''"], simp only: prod.case)
  apply (clarsimp simp: ends_Wqkv_weight)
  done

termination fuse_loop
  by (relation "measure (\<lambda>(p, i, d). key_count ''query.weight'' d)")
     (auto simp: fuse_layer_decreases)

termination split_loop
  by (relation "measure (\<lambda>(p, i, d). key_count ''Wqkv.weight'' d)")
     (auto simp: split_layer_decreases)

declare fuse_loop.simps [simp del] split_loop.simps [simp del]

text \<open>
  The whole function. \<^verbatim>\<open>if not state_dict: return state_dict\<close> returns an empty
  dictionary as it is; \<open>prefix\<close> is read off the first key.
\<close>

definition convert_text :: "string \<Rightarrow> tensor pydict \<Rightarrow> py_error + tensor pydict" where
  "convert_text prefix d =
     (if has_key d (prefix @ ''bert.encoder.layer.0.attention.self.query.weight'')
      then fuse_loop prefix 0 d
      else if has_key d (prefix @ ''bert.encoder.layer.0.attention.self.Wqkv.weight'')
      then split_loop prefix 0 d
      else Inr d)"

definition convert_state_dict :: "tensor pydict \<Rightarrow> py_error + tensor pydict" where
  "convert_state_dict state_dict =
     (if state_dict = [] then Inr state_dict
      else
        let prefix = (if startswith (fst (hd state_dict)) ''module'' then ''module.'' else [])
        in bind (convert_visual prefix state_dict) (convert_text prefix))"

section \<open>convert\_models\_to\_fp32 and convert\_weights\<close>

text \<open>
  A parameter of a module: its tensor \<open>data\<close> and its gradient, \<open>None\<close> until a backward
  pass has run. \<open>model.parameters()\<close> is the list of the model's parameters; the loops
  assign to \<open>p.data\<close> and \<open>p.grad.data\<close>, so each function returns the updated list, or
  the exception that stopped it.
  \<^verbatim>\<open>
  def convert_models_to_fp32(model):
      for p in model.parameters():
          p.data = p.data.float()
          if p.grad:
              p.grad.data = p.grad.data.float()
  \<close>
  The test \<^verbatim>\<open>if p.grad:\<close> is \<open>False\<close> on \<open>None\<close> and \<open>bool(p.grad)\<close> on a tensor.
\<close>

record parameter =
  data :: tensor
  grad :: "tensor option"

definition grad_truth :: "tensor option \<Rightarrow> py_error + bool" where
  "grad_truth g = (case g of None \<Rightarrow> Inr False | Some t \<Rightarrow> tensor_bool t)"

definition fp32_param :: "parameter \<Rightarrow> py_error + parameter" where
  "fp32_param p =
     (let p = p\<lparr>data := float (data p)\<rparr> in
      case grad_truth (grad p) of
        Inl e \<Rightarrow> Inl e
      | Inr True \<Rightarrow> Inr (p\<lparr>grad := map_option float (grad p)\<rparr>)
      | Inr False \<Rightarrow> Inr p)"

fun for_each :: "('a \<Rightarrow> py_error + 'a) \<Rightarrow> 'a list \<Rightarrow> py_error + 'a list" where
  "for_each f [] = Inr []"
| "for_each f (p # ps) =
     (case f p of
        Inl e \<Rightarrow> Inl e
      | Inr p' \<Rightarrow> (case for_each f ps of Inl e \<Rightarrow> Inl e | Inr ps' \<Rightarrow> Inr (p' # ps')))"

definition convert_models_to_fp32 :: "parameter list \<Rightarrow> py_error + parameter list" where
  "convert_models_to_fp32 parameters = for_each fp32_param parameters"

text \<open>
  \<^verbatim>\<open>
  def convert_weights(model):
      ...
      for param in model.parameters():
          param.data = param.data.half()
          if param.grad:
              param.grad.data = param.grad.data.float()
  \<close>
  The nested function \<open>_convert_weights_to_fp16\<close> is defined and never called (the call
  \<open>model.apply(_convert_weights_to_fp16)\<close> is commented out), so the loop is the whole
  effect.
\<close>

definition fp16_param :: "(real \<Rightarrow> real) \<Rightarrow> parameter \<Rightarrow> py_error + parameter" where
  "fp16_param rnd p =
     (let p = p\<lparr>data := half rnd (data p)\<rparr> in
      case grad_truth (grad p) of
        Inl e \<Rightarrow> Inl e
      | Inr True \<Rightarrow> Inr (p\<lparr>grad := map_option float (grad p)\<rparr>)
      | Inr False \<Rightarrow> Inr p)"

definition convert_weights :: "(real \<Rightarrow> real) \<Rightarrow> parameter list \<Rightarrow> py_error + parameter list" where
  "convert_weights rnd parameters = for_each (fp16_param rnd) parameters"

section \<open>Activations\<close>

text \<open>
  A tensor computed by a forward pass: its shape and its elements in row-major order.
  The forward pass is modelled over the real numbers: the element type of an activation
  and the rounding of each operation are outside the model, so \<^verbatim>\<open>x.type(self.dtype)\<close>
  is \<open>x\<close>. The shape decides every shape error; the elements never do.
\<close>

record array =
  dims :: "nat list"
  vals :: "real list"

text \<open>The \<open>i\<close>-th run of \<open>sz\<close> consecutive elements, and the first \<open>n\<close> such runs.\<close>

definition block :: "nat \<Rightarrow> nat \<Rightarrow> 'a list \<Rightarrow> 'a list" where
  "block sz i xs = take sz (drop (i * sz) xs)"

definition blocks :: "nat \<Rightarrow> nat \<Rightarrow> 'a list \<Rightarrow> 'a list list" where
  "blocks sz n xs = map (\<lambda>i. block sz i xs) [0 ..< n]"

text \<open>
  Token \<open>l\<close> of batch entry \<open>n\<close> of an array of shape \<open>[N, L, D]\<close>: a vector of \<open>D\<close>
  elements.
\<close>

definition token :: "array \<Rightarrow> nat \<Rightarrow> nat \<Rightarrow> real list" where
  "token x n l = block (dims x ! 2) (n * (dims x ! 1) + l) (vals x)"

text \<open>
  A function of the vectors of the last dimension, applied to each of them; \<open>d'\<close> is the
  length of a result vector.
\<close>

definition map_last :: "nat \<Rightarrow> (real list \<Rightarrow> real list) \<Rightarrow> array \<Rightarrow> array" where
  "map_last d' f x =
     \<lparr>dims = butlast (dims x) @ [d'],
      vals = concat (map f (blocks (last (dims x)) (prod_list (butlast (dims x))) (vals x)))\<rparr>"

text \<open>\<open>x + y\<close> for two arrays of one shape.\<close>

definition add :: "array \<Rightarrow> array \<Rightarrow> py_error + array" where
  "add x y = (if dims x \<noteq> dims y then Inl RuntimeError
              else Inr (x\<lparr>vals := map2 (+) (vals x) (vals y)\<rparr>))"

subsection \<open>nn.Linear\<close>

text \<open>
  \<^verbatim>\<open>nn.Linear(in_features, out_features, bias)\<close>: the weight is an \<open>out_features\<close> by
  \<open>in_features\<close> matrix, \<open>weight j i\<close> its entry in row \<open>j\<close> and column \<open>i\<close>, so its shape
  is the one the constructor gave it. Applied to an array, it maps every vector of the
  last dimension, which must have \<open>in_features\<close> elements.
\<close>

record linear =
  in_features :: nat
  out_features :: nat
  weight :: "nat \<Rightarrow> nat \<Rightarrow> real"
  bias :: "(nat \<Rightarrow> real) option"

definition dot :: "(nat \<Rightarrow> real) \<Rightarrow> real list \<Rightarrow> real" where
  "dot w x = sum_list (map (\<lambda>i. w i * x ! i) [0 ..< length x])"

definition linear_row :: "linear \<Rightarrow> real list \<Rightarrow> real list" where
  "linear_row lin x =
     map (\<lambda>j. dot (weight lin j) x + (case bias lin of None \<Rightarrow> 0 | Some b \<Rightarrow> b j))
       [0 ..< out_features lin]"

definition Linear :: "linear \<Rightarrow> array \<Rightarrow> py_error + array" where
  "Linear lin x =
     (if dims x = [] \<or> last (dims x) \<noteq> in_features lin then Inl RuntimeError
      else Inr (map_last (out_features lin) (linear_row lin) x))"

subsection \<open>LayerNorm\<close>

text \<open>
  \<^verbatim>\<open>LayerNorm(d)\<close> normalises every vector of the last dimension, which must have \<open>d\<close>
  elements; \<open>f\<close> is what it does to one vector (the normalisation with the learned scale
  and shift).
\<close>

definition LayerNorm :: "nat \<Rightarrow> (real list \<Rightarrow> real list) \<Rightarrow> array \<Rightarrow> py_error + array" where
  "LayerNorm d f x =
     (if dims x = [] \<or> last (dims x) \<noteq> d then Inl RuntimeError
      else Inr (map_last d f x))"

subsection \<open>ResidualAttentionBlock and Transformer\<close>

text \<open>
  \<^verbatim>\<open>
  class QuickGELU(nn.Module):
      def forward(self, x):
          return x * torch.sigmoid(1.702 * x)
  \<close>
\<close>

definition QuickGELU :: "array \<Rightarrow> array" where
  "QuickGELU x = x\<lparr>vals := map (\<lambda>v. v * (1 / (1 + exp (- (1.702 * v))))) (vals x)\<rparr>"

text \<open>
  A block of model width \<open>d\<close>. The attention module (\<open>nn.MultiheadAttention\<close> or
  \<open>FlashMHA\<close>) is given by what it does to the elements of a \<open>[L, N, d]\<close> array; it
  returns an array of the shape of its input. The two layer norms are given by what they
  do to one vector; \<open>c_fc\<close> and \<open>c_proj\<close> are the two linear layers of the \<open>mlp\<close>, from \<open>d\<close>
  to \<open>4 d\<close> elements and back.
  \<^verbatim>\<open>
    def forward(self, x):
        x = x + self.attention(self.ln_1(x))
        x = x + self.mlp(self.ln_2(x))
        return x
  \<close>
\<close>

record resblock =
  attn :: "nat list \<Rightarrow> real list \<Rightarrow> real list"
  ln_1 :: "real list \<Rightarrow> real list"
  c_fc_weight :: "nat \<Rightarrow> nat \<Rightarrow> real"
  c_fc_bias :: "nat \<Rightarrow> real"
  c_proj_weight :: "nat \<Rightarrow> nat \<Rightarrow> real"
  c_proj_bias :: "nat \<Rightarrow> real"
  ln_2 :: "real list \<Rightarrow> real list"

definition attention :: "nat \<Rightarrow> resblock \<Rightarrow> array \<Rightarrow> py_error + array" where
  "attention d b x =
     (if length (dims x) \<noteq> 3 \<or> last (dims x) \<noteq> d then Inl RuntimeError
      else Inr (x\<lparr>vals := attn b (dims x) (vals x)\<rparr>))"

definition mlp :: "nat \<Rightarrow> resblock \<Rightarrow> array \<Rightarrow> py_error + array" where
  "mlp d b x =
     bind (Linear \<lparr>in_features = d, out_features = d * 4, weight = c_fc_weight b,
                   bias = Some (c_fc_bias b)\<rparr> x) (\<lambda>h.
     Linear \<lparr>in_features = d * 4, out_features = d, weight = c_proj_weight b,
             bias = Some (c_proj_bias b)\<rparr> (QuickGELU h))"

definition ResidualAttentionBlock_forward :: "nat \<Rightarrow> resblock \<Rightarrow> array \<Rightarrow> py_error + array" where
  "ResidualAttentionBlock_forward d b x =
     bind (LayerNorm d (ln_1 b) x) (\<lambda>y.
     bind (attention d b y) (\<lambda>a.
     bind (add x a) (\<lambda>x.
     bind (LayerNorm d (ln_2 b) x) (\<lambda>y.
     bind (mlp d b y) (\<lambda>h.
     add x h)))))"

text \<open>
  \<open>Transformer.forward\<close> runs the blocks in order. With \<open>grad_checkpointing\<close> it calls
  each block through \<open>checkpoint(r, x)\<close>, which computes \<open>r(x)\<close>; the results are the same.
\<close>

fun Transformer_forward :: "nat \<Rightarrow> resblock list \<Rightarrow> array \<Rightarrow> py_error + array" where
  "Transformer_forward d [] x = Inr x"
| "Transformer_forward d (r # rs) x =
     bind (ResidualAttentionBlock_forward d r x) (Transformer_forward d rs)"

section \<open>VisualTransformer\<close>

text \<open>
  A batch of images, of shape \<open>[img_batch, img_channels, img_height, img_width]\<close>.
\<close>

record image =
  img_batch :: nat
  img_channels :: nat
  img_height :: nat
  img_width :: nat
  pixels :: "real list"

text \<open>
  The module that \<open>VisualTransformer.__init__\<close> builds from \<open>input_resolution\<close>,
  \<open>patch_size\<close>, \<open>width\<close> and \<open>output_dim\<close>, with the values of its parameters:
  \<^item> \<open>conv1\<close>, a convolution from 3 to \<open>width\<close> channels with kernel and stride
    \<open>patch_size\<close> and no bias, given by the elements it computes;
  \<^item> \<open>class_embedding\<close>, a vector of \<open>width\<close> elements;
  \<^item> \<open>positional_embedding\<close>, of shape \<open>[(input_resolution // patch_size) ** 2 + 1, width]\<close>;
  \<^item> the layer norms \<open>ln_pre\<close> and \<open>ln_post\<close> over \<open>width\<close> elements, the blocks of the
    transformer, and \<open>proj\<close>, of shape \<open>[width, output_dim]\<close>.
  The constructor computes \<^verbatim>\<open>width ** -0.5\<close> and \<^verbatim>\<open>input_resolution // patch_size\<close>,
  so it raises ZeroDivisionError unless \<open>width\<close> and \<open>patch_size\<close> are positive.
\<close>

record visual_transformer =
  input_resolution :: nat
  patch_size :: nat
  width :: nat
  output_dim :: nat
  conv1 :: "image \<Rightarrow> real list"
  class_embedding :: "nat \<Rightarrow> real"
  positional_embedding :: "nat \<Rightarrow> nat \<Rightarrow> real"
  ln_pre :: "real list \<Rightarrow> real list"
  resblocks :: "resblock list"
  ln_post :: "real list \<Rightarrow> real list"
  proj :: "(nat \<Rightarrow> nat \<Rightarrow> real) option"

text \<open>
  \<^verbatim>\<open>self.grid_size = (self.input_resolution // patch_size, self.input_resolution // patch_size)\<close>
\<close>

definition grid_size :: "visual_transformer \<Rightarrow> nat \<times> nat" where
  "grid_size v = (input_resolution v div patch_size v, input_resolution v div patch_size v)"

text \<open>The number of rows of \<open>positional_embedding\<close>.\<close>

definition num_positions :: "visual_transformer \<Rightarrow> nat" where
  "num_positions v = (input_resolution v div patch_size v) ^ 2 + 1"

text \<open>
  \<^verbatim>\<open>x = self.conv1(x)  # shape = [*, width, grid, grid]\<close>. The convolution needs 3
  input channels and an image no smaller than its kernel; it has no padding, so an image
  of height \<open>h\<close> gives \<open>h // patch_size\<close> rows of patches.
\<close>

definition conv1_forward :: "visual_transformer \<Rightarrow> image \<Rightarrow> py_error + array" where
  "conv1_forward v x =
     (if img_channels x \<noteq> 3 \<or> patch_size v = 0
         \<or> img_height x < patch_size v \<or> img_width x < patch_size v
      then Inl RuntimeError
      else Inr \<lparr>dims = [img_batch x, width v,
                         img_height x div patch_size v, img_width x div patch_size v],
                 vals = conv1 v x\<rparr>)"

text \<open>
  \<^verbatim>\<open>x = x.reshape(x.shape[0], x.shape[1], -1)\<close>. The size \<open>-1\<close> is worked out from the
  number of elements, which torch refuses to do when the two given sizes multiply to 0.
\<close>

definition reshape_flat :: "array \<Rightarrow> py_error + array" where
  "reshape_flat x =
     (case dims x of
        a # b # rest \<Rightarrow>
          if a * b = 0 then Inl RuntimeError
          else Inr (x\<lparr>dims := [a, b, prod_list rest]\<rparr>)
      | _ \<Rightarrow> Inl IndexError)"

text \<open>
  Element \<open>(i, j, k)\<close> of an array of rank 3, and the two permutations of the source:
  \<^verbatim>\<open>x.permute(0, 2, 1)\<close> and \<^verbatim>\<open>x.permute(1, 0, 2)\<close>.
\<close>

definition at3 :: "array \<Rightarrow> nat \<Rightarrow> nat \<Rightarrow> nat \<Rightarrow> real" where
  "at3 x i j k = vals x ! ((i * (dims x ! 1) + j) * (dims x ! 2) + k)"

definition permute_021 :: "array \<Rightarrow> py_error + array" where
  "permute_021 x =
     (case dims x of
        [a, b, c] \<Rightarrow>
          Inr \<lparr>dims = [a, c, b],
               vals = concat (map (\<lambda>i. concat (map (\<lambda>k. map (\<lambda>j. at3 x i j k) [0 ..< b])
                                                   [0 ..< c])) [0 ..< a])\<rparr>
      | _ \<Rightarrow> Inl RuntimeError)"

definition permute_102 :: "array \<Rightarrow> py_error + array" where
  "permute_102 x =
     (case dims x of
        [a, b, c] \<Rightarrow>
          Inr \<lparr>dims = [b, a, c],
               vals = concat (map (\<lambda>j. concat (map (\<lambda>i. map (\<lambda>k. at3 x i j k) [0 ..< c])
                                                   [0 ..< a])) [0 ..< b])\<rparr>
      | _ \<Rightarrow> Inl RuntimeError)"

text \<open>
  \<^verbatim>\<open>
        x = torch.cat(
            [self.class_embedding.to(x.dtype) + torch.zeros(x.shape[0], 1, x.shape[-1], ...),
             x], dim=1)  # shape = [*, grid ** 2 + 1, width]
  \<close>
  \<open>x\<close> comes from \<open>conv1\<close>, so its last dimension is \<open>width\<close>; the class token goes first
  in every batch entry.
\<close>

definition cat_class_embedding :: "visual_transformer \<Rightarrow> array \<Rightarrow> py_error + array" where
  "cat_class_embedding v x =
     (case dims x of
        [n, g, w] \<Rightarrow>
          if w \<noteq> width v then Inl RuntimeError
          else Inr \<lparr>dims = [n, g + 1, w],
                    vals = concat (map (\<lambda>i. map (class_embedding v) [0 ..< w]
                                          @ block (g * w) i (vals x)) [0 ..< n])\<rparr>
      | _ \<Rightarrow> Inl RuntimeError)"

text \<open>
  \<^verbatim>\<open>x = x + self.positional_embedding.to(x.dtype)\<close>: shapes \<open>[n, l, w]\<close> and
  \<open>[num_positions, width]\<close>. Broadcasting needs \<open>w = width\<close>, and \<open>l = num_positions\<close>
  unless one of the two is 1, which is then repeated.
\<close>

definition add_positional_embedding :: "visual_transformer \<Rightarrow> array \<Rightarrow> py_error + array" where
  "add_positional_embedding v x =
     (case dims x of
        [n, l, w] \<Rightarrow>
          let p = num_positions v in
          if w \<noteq> width v \<or> (l \<noteq> p \<and> l \<noteq> 1 \<and> p \<noteq> 1) then Inl RuntimeError
          else Inr \<lparr>dims = [n, max l p, w],
                    vals = concat (map (\<lambda>i. concat (map (\<lambda>j.
                              map2 (+) (token x i (if l = 1 then 0 else j))
                                       (map (positional_embedding v (if p = 1 then 0 else j))
                                            [0 ..< w]))
                              [0 ..< max l p])) [0 ..< n])\<rparr>
      | _ \<Rightarrow> Inl RuntimeError)"

subsection \<open>random\_masking\<close>

text \<open>
  \<^verbatim>\<open>
    def random_masking(self, x, mask_ratio):
        N, L, D = x.shape  # batch, length, dim
        len_keep = int((L - 1) * (1 - mask_ratio))
        noise = torch.rand(N, L - 1, device=x.device)
        ids_shuffle = torch.argsort(noise, dim=1) + torch.ones(N, L - 1, ..., dtype=int)
        ids_keep = ids_shuffle[:, :len_keep]
        x_masked = torch.gather(x, dim=1, index=ids_keep.unsqueeze(-1).repeat(1, 1, D))
        x0 = x[:, 0, :]
        x0 = x0.reshape(N, 1, D)
        x_masked_add = torch.cat([x0, x_masked], axis=1)
        return x_masked_add
  \<close>
  \<^item> \<open>mask_ratio\<close> is a real number, and \<open>int\<close> rounds towards zero.
  \<^item> The tensor that \<open>torch.rand\<close> draws is a parameter: \<open>noise n j\<close> is its entry in row
    \<open>n\<close> and column \<open>j\<close>. A negative size (\<open>L = 0\<close>) is refused.
  \<^item> \<open>argsort\<close> lists the positions of a row in ascending order of their values. Torch
    leaves the order of equal values open; here they stay in the order of their positions.
  \<^item> \<^verbatim>\<open>ids[:, :k]\<close> keeps the first \<open>k\<close> columns, or all but the last \<open>-k\<close> for a
    negative \<open>k\<close>.
  \<^item> \<open>gather\<close> with an index repeated over the last dimension picks whole tokens:
    entry \<open>j\<close> of row \<open>n\<close> of \<open>x_masked\<close> is token \<open>ids_keep[n][j]\<close> of row \<open>n\<close> of \<open>x\<close>.
\<close>

definition int_of_real :: "real \<Rightarrow> int" where
  "int_of_real r = (if 0 \<le> r then \<lfloor>r\<rfloor> else \<lceil>r\<rceil>)"

definition len_keep :: "nat \<Rightarrow> real \<Rightarrow> int" where
  "len_keep L mask_ratio = int_of_real (real (L - 1) * (1 - mask_ratio))"

definition slice_to :: "int \<Rightarrow> 'a list \<Rightarrow> 'a list" where
  "slice_to k xs = (if 0 \<le> k then take (nat k) xs else take (length xs - nat (- k)) xs)"

definition argsort :: "real list \<Rightarrow> nat list" where
  "argsort xs = sort_key (\<lambda>i. xs ! i) [0 ..< length xs]"

definition ids_keep :: "(nat \<Rightarrow> nat \<Rightarrow> real) \<Rightarrow> nat \<Rightarrow> real \<Rightarrow> nat \<Rightarrow> nat list" where
  "ids_keep noise L mask_ratio n =
     slice_to (len_keep L mask_ratio) (map Suc (argsort (map (noise n) [0 ..< L - 1])))"

definition random_masking ::
  "(nat \<Rightarrow> nat \<Rightarrow> real) \<Rightarrow> array \<Rightarrow> real \<Rightarrow> py_error + array" where
  "random_masking noise x mask_ratio =
     (case dims x of
        [N, L, D] \<Rightarrow>
          if L = 0 then Inl RuntimeError
          else Inr \<lparr>dims = [N, length (ids_keep noise L mask_ratio 0) + 1, D],
                    vals = concat (map (\<lambda>n. token x n 0
                              @ concat (map (token x n) (ids_keep noise L mask_ratio n)))
                              [0 ..< N])\<rparr>
      | _ \<Rightarrow> Inl ValueError)"

subsection \<open>forward\<close>

text \<open>\<^verbatim>\<open>x[:, 0, :]\<close>: the first token of every batch entry.\<close>

definition select_first :: "array \<Rightarrow> py_error + array" where
  "select_first x =
     (case dims x of
        n # l # rest \<Rightarrow>
          if rest = [] \<or> l = 0 then Inl IndexError
          else Inr \<lparr>dims = n # rest,
                    vals = concat (map (\<lambda>i. block (prod_list rest) (i * l) (vals x)) [0 ..< n])\<rparr>
      | _ \<Rightarrow> Inl IndexError)"

text \<open>\<^verbatim>\<open>x @ self.proj\<close>, for \<open>proj\<close> of shape \<open>[w, d]\<close>.\<close>

definition matmul_proj :: "nat \<Rightarrow> nat \<Rightarrow> (nat \<Rightarrow> nat \<Rightarrow> real) \<Rightarrow> array \<Rightarrow> py_error + array" where
  "matmul_proj w d p x =
     (if dims x = [] \<or> last (dims x) \<noteq> w then Inl RuntimeError
      else Inr (map_last d (\<lambda>row. map (\<lambda>j. dot (\<lambda>i. p i j) row) [0 ..< d]) x))"

text \<open>
  \<^verbatim>\<open>
    def forward(self, x, mask_ratio: float = 0.0, return_all_features=False):
        x = self.conv1(x)  # shape = [*, width, grid, grid]
        x = x.reshape(x.shape[0], x.shape[1], -1)  # shape = [*, width, grid ** 2]
        x = x.permute(0, 2, 1)  # shape = [*, grid ** 2, width]
        x = torch.cat([self.class_embedding ... , x], dim=1)
        x = x + self.positional_embedding.to(x.dtype)
        if mask_ratio != 0:
            x = self.random_masking(x, mask_ratio)
        x = self.ln_pre(x)
        x = x.permute(1, 0, 2)  # NLD -> LND
        x = self.transformer(x)
        if return_all_features:
            x=self.ln_post(x)
            x = x.permute(1, 0, 2)  # LND -> NLD
            return x
        x = x.permute(1, 0, 2)  # LND -> NLD
        x = self.ln_post(x[:, 0, :])  # Only CLS token
        if self.proj is not None:
            x = x @ self.proj
        return x
  \<close>
\<close>

definition VisualTransformer_forward ::
  "visual_transformer \<Rightarrow> (nat \<Rightarrow> nat \<Rightarrow> real) \<Rightarrow> image \<Rightarrow> real \<Rightarrow> bool \<Rightarrow> py_error + array"
where
  "VisualTransformer_forward v noise x mask_ratio return_all_features =
     bind (conv1_forward v x) (\<lambda>x.
     bind (reshape_flat x) (\<lambda>x.
     bind (permute_021 x) (\<lambda>x.
     bind (cat_class_embedding v x) (\<lambda>x.
     bind (add_positional_embedding v x) (\<lambda>x.
     bind (if mask_ratio \<noteq> 0 then random_masking noise x mask_ratio else Inr x) (\<lambda>x.
     bind (LayerNorm (width v) (ln_pre v) x) (\<lambda>x.
     bind (permute_102 x) (\<lambda>x.
     bind (Transformer_forward (width v) (resblocks v) x) (\<lambda>x.
     if return_all_features then
       bind (LayerNorm (width v) (ln_post v) x) (\<lambda>x.
       permute_102 x)
     else
       bind (permute_102 x) (\<lambda>x.
       bind (select_first x) (\<lambda>x.
       bind (LayerNorm (width v) (ln_post v) x) (\<lambda>x.
       case proj v of
         None \<Rightarrow> Inr x
       | Some p \<Rightarrow> matmul_proj (width v) (output_dim v) p x))))))))))))"

section \<open>ModifiedResNet\<close>

text \<open>
  The convolutional backbone, by its stages: the three-layer stem with its average pool,
  the four residual layers and the attention pool. Each stage is given by the array it
  returns or the exception it raises.
  \<^verbatim>\<open>
        x = x.type(self.conv1.weight.dtype)
        x = stem(x)
        x = self.layer1(x)
        x = self.layer2(x)
        x = self.layer3(x)
        x = self.layer4(x)
        x = self.attnpool(x)
        return x
  \<close>
\<close>

record modified_resnet =
  stem :: "image \<Rightarrow> py_error + array"
  layer1 :: "array \<Rightarrow> py_error + array"
  layer2 :: "array \<Rightarrow> py_error + array"
  layer3 :: "array \<Rightarrow> py_error + array"
  layer4 :: "array \<Rightarrow> py_error + array"
  attnpool :: "array \<Rightarrow> py_error + array"

definition ModifiedResNet_forward :: "modified_resnet \<Rightarrow> image \<Rightarrow> py_error + array" where
  "ModifiedResNet_forward r x =
     bind (stem r x) (\<lambda>x.
     bind (layer1 r x) (\<lambda>x.
     bind (layer2 r x) (\<lambda>x.
     bind (layer3 r x) (\<lambda>x.
     bind (layer4 r x) (\<lambda>x.
     attnpool r x)))))"

section \<open>CLIP\<close>

subsection \<open>Values of the Python program\<close>

text \<open>
  The methods of \<open>CLIP\<close> return a tensor or a tuple, and their callers take the result
  apart without looking at which it is. A value is a tensor or a tuple of values.
\<close>

datatype pyval = Tensor array | Tuple "pyval list"

text \<open>
  \<^verbatim>\<open>a, b = v\<close> and \<^verbatim>\<open>a, b, c = v\<close>: a tuple must have the number of targets; a
  tensor is iterated over dimension 0, which must have that size, and a tensor of rank 0
  cannot be iterated.
\<close>

definition unpack :: "nat \<Rightarrow> pyval \<Rightarrow> py_error + pyval list" where
  "unpack k v =
     (case v of
        Tuple xs \<Rightarrow> if length xs = k then Inr xs else Inl ValueError
      | Tensor x \<Rightarrow>
          (case dims x of
             [] \<Rightarrow> Inl TypeError
           | n # rest \<Rightarrow>
               if n = k
               then Inr (map (\<lambda>i. Tensor \<lparr>dims = rest, vals = block (prod_list rest) i (vals x)\<rparr>)
                          [0 ..< k])
               else Inl ValueError))"

text \<open>
  \<^verbatim>\<open>v / v.norm(dim=-1, keepdim=True)\<close>: every vector of the last dimension divided by
  its Euclidean norm. A tuple has no attribute \<open>norm\<close>. Where torch divides by a norm of
  zero and gets \<open>nan\<close>, the division of the reals gives 0.
\<close>

definition l2_norm :: "real list \<Rightarrow> real" where
  "l2_norm xs = sqrt (sum_list (map (\<lambda>x. x * x) xs))"

definition normalize :: "real list \<Rightarrow> real list" where
  "normalize xs = map (\<lambda>x. x / l2_norm xs) xs"

definition div_norm_last :: "pyval \<Rightarrow> py_error + pyval" where
  "div_norm_last v =
     (case v of
        Tuple _ \<Rightarrow> Inl AttributeError
      | Tensor x \<Rightarrow>
          if dims x = [] then Inr (Tensor (x\<lparr>vals := normalize (vals x)\<rparr>))
          else Inr (Tensor (map_last (last (dims x)) normalize x)))"

text \<open>
  \<^verbatim>\<open>v / v.norm(dim=1, keepdim=True)\<close>: the norm is taken over dimension 1, which a
  tensor of rank below 2 does not have. For shape \<open>a # b # rest\<close>, element \<open>(i, j, k)\<close>,
  with \<open>k\<close> running over the \<open>prod_list rest\<close> positions of the other dimensions, is
  divided by the norm of the elements \<open>(i, j', k)\<close>.
\<close>

definition div_norm_dim1 :: "pyval \<Rightarrow> py_error + pyval" where
  "div_norm_dim1 v =
     (case v of
        Tuple _ \<Rightarrow> Inl AttributeError
      | Tensor x \<Rightarrow>
          (case dims x of
             a # b # rest \<Rightarrow>
               let r = prod_list rest;
                   el = (\<lambda>i j k. vals x ! ((i * b + j) * r + k)) in
               Inr (Tensor (x\<lparr>vals :=
                 concat (map (\<lambda>i. concat (map (\<lambda>j. map (\<lambda>k.
                     el i j k / l2_norm (map (\<lambda>j'. el i j' k) [0 ..< b]))
                   [0 ..< r]) [0 ..< b])) [0 ..< a])\<rparr>))
           | _ \<Rightarrow> Inl IndexError))"

text \<open>
  \<^verbatim>\<open>v.t()\<close>: the transpose of a matrix; a tensor of rank below 2 is returned as it is,
  one of rank above 2 is refused.
\<close>

definition t :: "pyval \<Rightarrow> py_error + pyval" where
  "t v =
     (case v of
        Tuple _ \<Rightarrow> Inl AttributeError
      | Tensor x \<Rightarrow>
          (case dims x of
             [a, b] \<Rightarrow>
               Inr (Tensor \<lparr>dims = [b, a],
                      vals = concat (map (\<lambda>j. map (\<lambda>i. vals x ! (i * b + j)) [0 ..< a])
                                      [0 ..< b])\<rparr>)
           | _ \<Rightarrow> if length (dims x) < 2 then Inr v else Inl RuntimeError))"

text \<open>
  \<^verbatim>\<open>s * v\<close> for a scalar tensor \<open>s\<close>, and \<^verbatim>\<open>v @ w\<close> for two matrices. The product of
  tensors of other ranks is not part of the model: it is an exception here.
\<close>

definition scale :: "real \<Rightarrow> pyval \<Rightarrow> py_error + pyval" where
  "scale s v =
     (case v of
        Tuple _ \<Rightarrow> Inl TypeError
      | Tensor x \<Rightarrow> Inr (Tensor (x\<lparr>vals := map (\<lambda>e. s * e) (vals x)\<rparr>)))"

definition matmul :: "pyval \<Rightarrow> pyval \<Rightarrow> py_error + pyval" where
  "matmul v w =
     (case (v, w) of
        (Tensor x, Tensor y) \<Rightarrow>
          (case (dims x, dims y) of
             ([a, b], [b', c]) \<Rightarrow>
               if b \<noteq> b' then Inl RuntimeError
               else Inr (Tensor \<lparr>dims = [a, c],
                      vals = concat (map (\<lambda>i. map (\<lambda>k.
                          sum_list (map (\<lambda>j. vals x ! (i * b + j) * vals y ! (j * c + k))
                                      [0 ..< b]))
                        [0 ..< c]) [0 ..< a])\<rparr>)
           | _ \<Rightarrow> Inl RuntimeError)
      | _ \<Rightarrow> Inl TypeError)"

text \<open>
  \<^verbatim>\<open>torch.cat((x, y), dim=1)\<close>: both arrays need rank at least 2 and the same sizes
  outside dimension 1.
\<close>

definition cat1 :: "array \<Rightarrow> array \<Rightarrow> py_error + array" where
  "cat1 x y =
     (case (dims x, dims y) of
        (a # b # rest, a' # b' # rest') \<Rightarrow>
          if a \<noteq> a' \<or> rest \<noteq> rest' then Inl RuntimeError
          else Inr \<lparr>dims = a # (b + b') # rest,
                    vals = concat (map (\<lambda>i. block (b * prod_list rest) i (vals x)
                                          @ block (b' * prod_list rest) i (vals y)) [0 ..< a])\<rparr>
      | _ \<Rightarrow> Inl IndexError)"

subsection \<open>The model\<close>

text \<open>
  \<open>CLIP.__init__\<close> chooses the backbone by the type of \<open>vision_layers\<close>: a tuple or list
  gives a \<open>ModifiedResNet\<close>, a number a \<open>VisualTransformer\<close>.
\<close>

datatype visual = ModifiedResNet modified_resnet | VisualTransformer visual_transformer

text \<open>
  A batch of token ids of shape \<open>text_dims\<close>, and a text projection head:
  \<^verbatim>\<open>nn.Sequential(nn.Linear(text_hidden_size, text_hidden_size), nn.ReLU(),
  nn.Linear(text_hidden_size, embed_dim))\<close>, by the weights and biases of its two linear
  layers (entries 0 and 2 of the sequence).
\<close>

record text_batch =
  text_dims :: "nat list"
  ids :: "int list"

record projection =
  weight0 :: "nat \<Rightarrow> nat \<Rightarrow> real"
  bias0 :: "nat \<Rightarrow> real"
  weight2 :: "nat \<Rightarrow> nat \<Rightarrow> real"
  bias2 :: "nat \<Rightarrow> real"

text \<open>
  The model that \<open>CLIP.__init__\<close> builds from \<open>embed_dim\<close> and \<open>text_hidden_size\<close>:
  \<^item> \<open>visual\<close>, the image backbone;
  \<^item> \<open>bert\<close>, the text backbone, by the first element of what it returns for a batch of
    token ids and an attention mask, and \<open>vocab\<close>, the vocabulary of the tokenizer;
  \<^item> the three text projection heads and the three logit scales;
  \<^item> the weights of \<open>global_feature_mapping\<close>, \<open>left_feature_mapping\<close> and
    \<open>right_feature_mapping\<close>.
\<close>

record clip =
  embed_dim :: nat
  text_hidden_size :: nat
  visual :: visual
  bert :: "text_batch \<Rightarrow> array \<Rightarrow> py_error + array"
  vocab :: "(string \<times> int) list"
  text_projection :: projection
  text_projection_left :: projection
  text_projection_right :: projection
  logit_scale :: real
  logit_scale_left :: real
  logit_scale_right :: real
  global_feature_weight :: "nat \<Rightarrow> nat \<Rightarrow> real"
  left_feature_weight :: "nat \<Rightarrow> nat \<Rightarrow> real"
  right_feature_weight :: "nat \<Rightarrow> nat \<Rightarrow> real"

text \<open>
  Lines 444 to 446:
  \<^verbatim>\<open>
        self.global_feature_mapping = nn.Linear(2 * embed_dim, embed_dim, bias=False)
        self.left_feature_mapping = nn.Linear(embed_dim, embed_dim, bias=False)
        self.right_feature_mapping = nn.Linear(embed_dim, embed_dim, bias=False)
  \<close>
\<close>

definition global_feature_mapping :: "clip \<Rightarrow> linear" where
  "global_feature_mapping m =
     \<lparr>in_features = 2 * embed_dim m, out_features = embed_dim m,
      weight = global_feature_weight m, bias = None\<rparr>"

definition left_feature_mapping :: "clip \<Rightarrow> linear" where
  "left_feature_mapping m =
     \<lparr>in_features = embed_dim m, out_features = embed_dim m,
      weight = left_feature_weight m, bias = None\<rparr>"

definition right_feature_mapping :: "clip \<Rightarrow> linear" where
  "right_feature_mapping m =
     \<lparr>in_features = embed_dim m, out_features = embed_dim m,
      weight = right_feature_weight m, bias = None\<rparr>"

text \<open>
  \<^verbatim>\<open>self.<name>\<close> for the name of a feature mapping. The constructor sets the three
  names above and no other; reading an attribute that was never set raises
  AttributeError.
\<close>

definition feature_mapping :: "clip \<Rightarrow> string \<Rightarrow> py_error + linear" where
  "feature_mapping m name =
     (if name = ''global_feature_mapping'' then Inr (global_feature_mapping m)
      else if name = ''left_feature_mapping'' then Inr (left_feature_mapping m)
      else if name = ''right_feature_mapping'' then Inr (right_feature_mapping m)
      else Inl AttributeError)"

text \<open>\<open>self.visual(x)\<close> and \<open>self.visual(x, mask_ratio, return_all_features=True)\<close>.\<close>

definition type_image :: "image option \<Rightarrow> py_error + image" where
  "type_image img = (case img of None \<Rightarrow> Inl AttributeError | Some x \<Rightarrow> Inr x)"

subsection \<open>encode\_image\<close>

text \<open>
  \<^verbatim>\<open>
    def encode_image(self, img_l, img_r, mask_ratio=0, return_all_features=False):
        if img_r is None:
            if isinstance(self.visual, ModifiedResNet):
                vision_feature = self.visual(img_l.type(self.dtype))
                return vision_feature
            vision_feature = self.visual(img_l.type(self.dtype), mask_ratio, return_all_features=True)
            return vision_feature
        if img_l is None:
            (the same with img_r)
        if isinstance(self.visual, ModifiedResNet):
            left_feature = self.visual(img_l.type(self.dtype))
            right_feature = self.visual(img_r.type(self.dtype))
            vision_feature = torch.cat((left_feature, right_feature), dim=1)
            return self.global_feature_mapping(vision_feature), self.single_feature_mapping(
                left_feature), self.single_feature_mapping(right_feature)
        left_feature = self.visual(img_l.type(self.dtype), mask_ratio, return_all_features=True)
        right_feature = self.visual(img_r.type(self.dtype), mask_ratio, return_all_features=True)
        vision_feature = torch.cat((left_feature, right_feature), dim=1)
        return self.global_feature_mapping(vision_feature), self.left_feature_mapping(
            left_feature), self.right_feature_mapping(right_feature)
  \<close>
  \<^item> \<open>None.type\<close> raises AttributeError.
  \<^item> \<open>rng k\<close> is the tensor of the \<open>k\<close>-th call of \<open>torch.rand\<close>: the left image comes
    first.
  \<^item> The elements of the returned tuple are computed from left to right, each one by
    reading the attribute and then calling it.
\<close>

definition visual_single ::
  "clip \<Rightarrow> (nat \<Rightarrow> nat \<Rightarrow> real) \<Rightarrow> image option \<Rightarrow> real \<Rightarrow> py_error + array" where
  "visual_single m noise img mask_ratio =
     (case visual m of
        ModifiedResNet r \<Rightarrow>
          bind (type_image img) (\<lambda>x. ModifiedResNet_forward r x)
      | VisualTransformer v \<Rightarrow>
          bind (type_image img) (\<lambda>x. VisualTransformer_forward v noise x mask_ratio True))"

definition apply_mapping :: "clip \<Rightarrow> string \<Rightarrow> array \<Rightarrow> py_error + pyval" where
  "apply_mapping m name x =
     bind (feature_mapping m name) (\<lambda>f.
     bind (Linear f x) (\<lambda>y. Inr (Tensor y)))"

definition encode_image ::
  "clip \<Rightarrow> (nat \<Rightarrow> nat \<Rightarrow> nat \<Rightarrow> real) \<Rightarrow> image option \<Rightarrow> image option \<Rightarrow> real \<Rightarrow> bool
   \<Rightarrow> py_error + pyval" where
  "encode_image m rng img_l img_r mask_ratio return_all_features =
     (if img_r = None then
        bind (visual_single m (rng 0) img_l mask_ratio) (\<lambda>vision_feature.
        Inr (Tensor vision_feature))
      else if img_l = None then
        bind (visual_single m (rng 0) img_r mask_ratio) (\<lambda>vision_feature.
        Inr (Tensor vision_feature))
      else
        bind (visual_single m (rng 0) img_l mask_ratio) (\<lambda>left_feature.
        bind (visual_single m (rng 1) img_r mask_ratio) (\<lambda>right_feature.
        bind (cat1 left_feature right_feature) (\<lambda>vision_feature.
        (case visual m of
           ModifiedResNet _ \<Rightarrow>
             bind (apply_mapping m ''global_feature_mapping'' vision_feature) (\<lambda>g.
             bind (apply_mapping m ''single_feature_mapping'' left_feature) (\<lambda>l.
             bind (apply_mapping m ''single_feature_mapping'' right_feature) (\<lambda>r.
             Inr (Tuple [g, l, r]))))
         | VisualTransformer _ \<Rightarrow>
             bind (apply_mapping m ''global_feature_mapping'' vision_feature) (\<lambda>g.
             bind (apply_mapping m ''left_feature_mapping'' left_feature) (\<lambda>l.
             bind (apply_mapping m ''right_feature_mapping'' right_feature) (\<lambda>r.
             Inr (Tuple [g, l, r])))))))))"

subsection \<open>encode\_text\<close>

text \<open>
  \<^verbatim>\<open>
    def encode_text(self, text):
        pad_index = self.tokenizer.vocab['[PAD]']
        attn_mask = text.ne(pad_index).type(self.dtype)
        x = self.bert(text, attention_mask=attn_mask)[0].type(self.dtype)
        text = self.text_projection(x[:, 0, :])
        text_left = self.text_projection_left(x[:, 0, :])
        text_right = self.text_projection_right(x[:, 0, :])
        return text, text_left, text_right
  \<close>
\<close>

definition ReLU :: "array \<Rightarrow> array" where
  "ReLU x = x\<lparr>vals := map (max 0) (vals x)\<rparr>"

definition linear0 :: "clip \<Rightarrow> projection \<Rightarrow> linear" where
  "linear0 m p = \<lparr>in_features = text_hidden_size m, out_features = text_hidden_size m,
                  weight = weight0 p, bias = Some (bias0 p)\<rparr>"

definition linear2 :: "clip \<Rightarrow> projection \<Rightarrow> linear" where
  "linear2 m p = \<lparr>in_features = text_hidden_size m, out_features = embed_dim m,
                  weight = weight2 p, bias = Some (bias2 p)\<rparr>"

definition Sequential :: "clip \<Rightarrow> projection \<Rightarrow> array \<Rightarrow> py_error + array" where
  "Sequential m p x =
     bind (Linear (linear0 m p) x) (\<lambda>h.
     Linear (linear2 m p) (ReLU h))"

definition ne :: "text_batch \<Rightarrow> int \<Rightarrow> array" where
  "ne text pad_index =
     \<lparr>dims = text_dims text, vals = map (\<lambda>i. if i \<noteq> pad_index then 1 else 0) (ids text)\<rparr>"

definition encode_text :: "clip \<Rightarrow> text_batch option \<Rightarrow> py_error + pyval" where
  "encode_text m text =
     (case map_of (vocab m) ''[PAD]'' of
        None \<Rightarrow> Inl KeyError
      | Some pad_index \<Rightarrow>
          (case text of
             None \<Rightarrow> Inl AttributeError
           | Some text \<Rightarrow>
               bind (bert m text (ne text pad_index)) (\<lambda>x.
               bind (select_first x) (\<lambda>cls.
               bind (Sequential m (text_projection m) cls) (\<lambda>text.
               bind (select_first x) (\<lambda>cls.
               bind (Sequential m (text_projection_left m) cls) (\<lambda>text_left.
               bind (select_first x) (\<lambda>cls.
               bind (Sequential m (text_projection_right m) cls) (\<lambda>text_right.
               Inr (Tuple [Tensor text, Tensor text_left, Tensor text_right]))))))))))"

subsection \<open>forward\<close>

text \<open>
  \<^verbatim>\<open>
    def forward(self, img_l, img_r, text, mask_ratio=0):
        assert img_l is not None or img_r is not None or text is not None, "..."
        if img_l is None and img_r is None:
            return self.encode_text(text)
        elif text is None and img_r is None:
            return self.encode_image(img_l=img_l, img_r=None)
        elif text is None and img_l is None:
            return self.encode_image(img_l=None, img_r=img_r)
        elif text is None:
            return self.encode_image(img_l, img_r)
        assert img_l is not None and img_r is not None, "both images is required!"
        image_features, left_features, right_features = self.encode_image(img_l, img_r, mask_ratio)
        text_features, text_features_left, text_features_right = self.encode_text(text)
        image_features = image_features / image_features.norm(dim=-1, keepdim=True)
        left_features = left_features / left_features.norm(dim=-1, keepdim=True)
        right_features = right_features / right_features.norm(dim=-1, keepdim=True)
        text_features = text_features / text_features.norm(dim=-1, keepdim=True)
        text_features_left = text_features_left / text_features_left.norm(dim=-1, keepdim=True)
        text_features_right = text_features_right / text_features_right.norm(dim=-1, keepdim=True)
        return image_features, text_features, text_features_left, text_features_right,
               left_features, right_features, self.logit_scale.exp(),
               self.logit_scale_left.exp(), self.logit_scale_right.exp()
  \<close>
\<close>

definition scalar :: "real \<Rightarrow> pyval" where
  "scalar r = Tensor \<lparr>dims = [], vals = [r]\<rparr>"

definition forward ::
  "clip \<Rightarrow> (nat \<Rightarrow> nat \<Rightarrow> nat \<Rightarrow> real) \<Rightarrow> image option \<Rightarrow> image option \<Rightarrow> text_batch option
   \<Rightarrow> real \<Rightarrow> py_error + pyval" where
  "forward m rng img_l img_r text mask_ratio =
     (if \<not> (img_l \<noteq> None \<or> img_r \<noteq> None \<or> text \<noteq> None) then Inl AssertionError
      else if img_l = None \<and> img_r = None then encode_text m text
      else if text = None \<and> img_r = None then encode_image m rng img_l None 0 False
      else if text = None \<and> img_l = None then encode_image m rng None img_r 0 False
      else if text = None then encode_image m rng img_l img_r 0 False
      else if \<not> (img_l \<noteq> None \<and> img_r \<noteq> None) then Inl AssertionError
      else
        bind (encode_image m rng img_l img_r mask_ratio False) (\<lambda>r.
        bind (unpack 3 r) (\<lambda>fs.
        let image_features = fs ! 0; left_features = fs ! 1; right_features = fs ! 2 in
        bind (encode_text m text) (\<lambda>r.
        bind (unpack 3 r) (\<lambda>ts.
        let text_features = ts ! 0; text_features_left = ts ! 1; text_features_right = ts ! 2 in
        bind (div_norm_last image_features) (\<lambda>image_features.
        bind (div_norm_last left_features) (\<lambda>left_features.
        bind (div_norm_last right_features) (\<lambda>right_features.
        bind (div_norm_last text_features) (\<lambda>text_features.
        bind (div_norm_last text_features_left) (\<lambda>text_features_left.
        bind (div_norm_last text_features_right) (\<lambda>text_features_right.
        Inr (Tuple [image_features, text_features, text_features_left, text_features_right,
                    left_features, right_features, scalar (exp (logit_scale m)),
                    scalar (exp (logit_scale_left m)),
                    scalar (exp (logit_scale_right m))]))))))))))))"

subsection \<open>get\_similarity\<close>

text \<open>
  \<^verbatim>\<open>
    def get_similarity(self, img_l, img_r, text):
        image_features, _ = self.encode_image(img_l, img_r)
        text_features = self.encode_text(text)
        image_features = image_features / image_features.norm(dim=1, keepdim=True)
        text_features = text_features / text_features.norm(dim=1, keepdim=True)
        logit_scale = self.logit_scale.exp()
        logits_per_image = logit_scale * image_features @ text_features.t()
        logits_per_text = logits_per_image.t()
        return logits_per_image, logits_per_text
  \<close>
  In \<^verbatim>\<open>logit_scale * image_features @ text_features.t()\<close> the product with the scalar
  comes first.
\<close>

definition get_similarity ::
  "clip \<Rightarrow> (nat \<Rightarrow> nat \<Rightarrow> nat \<Rightarrow> real) \<Rightarrow> image option \<Rightarrow> image option \<Rightarrow> text_batch option
   \<Rightarrow> py_error + pyval" where
  "get_similarity m rng img_l img_r text =
     bind (encode_image m rng img_l img_r 0 False) (\<lambda>r.
     bind (unpack 2 r) (\<lambda>fs.
     let image_features = fs ! 0 in
     bind (encode_text m text) (\<lambda>text_features.
     bind (div_norm_dim1 image_features) (\<lambda>image_features.
     bind (div_norm_dim1 text_features) (\<lambda>text_features.
     bind (scale (exp (logit_scale m)) image_features) (\<lambda>scaled.
     bind (t text_features) (\<lambda>text_t.
     bind (matmul scaled text_t) (\<lambda>logits_per_image.
     bind (t logits_per_image) (\<lambda>logits_per_text.
     Inr (Tuple [logits_per_image, logits_per_text]))))))))))"

section \<open>resize\_pos\_embed\<close>

text \<open>
  \<^verbatim>\<open>
  def _ntuple(n):
      def parse(x):
          if isinstance(x, collections.abc.Iterable):
              return x
          return tuple(repeat(x, n))
      return parse
  to_2tuple = _ntuple(2)
  \<close>
\<close>

datatype 'a scalar_or_iterable = Scalar 'a | Iterable "'a list"

definition ntuple :: "nat \<Rightarrow> 'a scalar_or_iterable \<Rightarrow> 'a list" where
  "ntuple n x = (case x of Iterable xs \<Rightarrow> xs | Scalar v \<Rightarrow> replicate n v)"

definition to_2tuple :: "'a scalar_or_iterable \<Rightarrow> 'a list" where
  "to_2tuple = ntuple 2"

text \<open>\<^verbatim>\<open>xs[i]\<close> for a tuple and an index that is not negative.\<close>

definition index :: "'a list \<Rightarrow> nat \<Rightarrow> py_error + 'a" where
  "index xs i = (if i < length xs then Inr (xs ! i) else Inl IndexError)"

text \<open>
  The model passed to \<open>resize_pos_embed\<close> is a \<open>CLIP\<close>, or a wrapper that holds it in its
  attribute \<open>module\<close>. Of the two backbones only \<open>VisualTransformer\<close> has the attribute
  \<open>grid_size\<close>, a tuple of two numbers.
\<close>

datatype module = Plain clip | Wrapped clip

definition unwrap :: "module \<Rightarrow> clip" where
  "unwrap model = (case model of Plain m \<Rightarrow> m | Wrapped m \<Rightarrow> m)"

definition visual_grid_size :: "visual \<Rightarrow> nat scalar_or_iterable option" where
  "visual_grid_size vis =
     (case vis of
        ModifiedResNet _ \<Rightarrow> None
      | VisualTransformer v \<Rightarrow> Some (Iterable [fst (grid_size v), snd (grid_size v)]))"

text \<open>
  \<^verbatim>\<open>int(math.sqrt(n))\<close>: the largest \<open>m\<close> with \<open>m * m \<le> n\<close>.
\<close>

definition isqrt :: "nat \<Rightarrow> nat" where
  "isqrt n = length (filter (\<lambda>m. m * m \<le> n) [1 ..< Suc n])"

text \<open>
  Lines 735 to 742, for the patch rows \<open>pos_emb_img\<close> of shape \<open>[len, ...]\<close>:
  \<^verbatim>\<open>
    pos_emb_img = pos_emb_img.reshape(1, old_grid_size[0], old_grid_size[1], -1).permute(0, 3, 1, 2)
    pos_emb_img = F.interpolate(pos_emb_img, size=grid_size, mode=interpolation, align_corners=True)
    pos_emb_img = pos_emb_img.permute(0, 2, 3, 1).reshape(1, grid_size[0] * grid_size[1], -1)[0]
  \<close>
  The reshape needs a number of elements that the old grid divides, and leaves \<open>c\<close>
  channels. The interpolation itself is a parameter: \<open>interpolate c old new es\<close> are the
  elements of the new grid, in the layout of \<open>es\<close> (grid rows, grid columns, channels). It
  needs a size of two positive numbers and at least one channel.
\<close>

definition resample ::
  "(nat \<Rightarrow> nat list \<Rightarrow> nat list \<Rightarrow> real list \<Rightarrow> real list) \<Rightarrow> nat list \<Rightarrow> nat list \<Rightarrow> tensor
   \<Rightarrow> py_error + tensor" where
  "resample interpolate old_grid_size new_grid pos_emb_img =
     bind (index old_grid_size 0) (\<lambda>o0.
     bind (index old_grid_size 1) (\<lambda>o1.
     if o0 * o1 = 0 \<or> numel pos_emb_img mod (o0 * o1) \<noteq> 0 then Inl RuntimeError
     else
       let c = numel pos_emb_img div (o0 * o1) in
       if length new_grid \<noteq> 2 then Inl ValueError
       else if c = 0 \<or> new_grid ! 0 = 0 \<or> new_grid ! 1 = 0 then Inl RuntimeError
       else Inr (pos_emb_img\<lparr>shape := [new_grid ! 0 * new_grid ! 1, c],
                   elems := interpolate c [o0, o1] new_grid (elems pos_emb_img)\<rparr>)))"

text \<open>
  \<^verbatim>\<open>
  def resize_pos_embed(state_dict, model, interpolation: str = 'bicubic', seq_dim=1, prefix=""):
      old_pos_embed = state_dict.get(prefix + 'visual.positional_embedding', None)
      model = model.module if hasattr(model, 'module') else model
      if old_pos_embed is None or not hasattr(model.visual, 'grid_size'):
          return
      grid_size = to_2tuple(model.visual.grid_size)
      extra_tokens = 1
      new_seq_len = grid_size[0] * grid_size[1] + extra_tokens
      if new_seq_len == old_pos_embed.shape[0]:
          return
      if extra_tokens:
          pos_emb_tok, pos_emb_img = old_pos_embed[:extra_tokens], old_pos_embed[extra_tokens:]
      else:
          pos_emb_tok, pos_emb_img = None, old_pos_embed
      old_grid_size = to_2tuple(int(math.sqrt(len(pos_emb_img))))
      (lines 735 to 742)
      if pos_emb_tok is not None:
          new_pos_embed = torch.cat([pos_emb_tok, pos_emb_img], dim=0)
      else:
          new_pos_embed = pos_emb_img
      state_dict[prefix + 'visual.positional_embedding'] = new_pos_embed
  \<close>
  The function changes \<open>state_dict\<close> in place and returns nothing: the model returns the
  state dict as the call leaves it. \<open>extra_tokens\<close> is 1, so the branches for 0 are not
  taken.
\<close>

definition shape0 :: "tensor \<Rightarrow> py_error + nat" where
  "shape0 x = (case shape x of [] \<Rightarrow> Inl IndexError | n # _ \<Rightarrow> Inr n)"

definition resize_pos_embed ::
  "(nat \<Rightarrow> nat list \<Rightarrow> nat list \<Rightarrow> real list \<Rightarrow> real list) \<Rightarrow> tensor pydict \<Rightarrow> module \<Rightarrow> string
   \<Rightarrow> py_error + tensor pydict" where
  "resize_pos_embed interpolate state_dict model prefix =
     (case map_of state_dict (prefix @ ''visual.positional_embedding'') of
        None \<Rightarrow> Inr state_dict
      | Some old_pos_embed \<Rightarrow>
          (case visual_grid_size (visual (unwrap model)) of
             None \<Rightarrow> Inr state_dict
           | Some gs \<Rightarrow>
               let new_grid = to_2tuple gs in
               bind (index new_grid 0) (\<lambda>g0.
               bind (index new_grid 1) (\<lambda>g1.
               let new_seq_len = g0 * g1 + 1 in
               bind (shape0 old_pos_embed) (\<lambda>n.
               if new_seq_len = n then Inr state_dict
               else
                 bind (slice0 0 1 old_pos_embed) (\<lambda>pos_emb_tok.
                 bind (slice0 1 n old_pos_embed) (\<lambda>pos_emb_img.
                 bind (shape0 pos_emb_img) (\<lambda>len.
                 let old_grid_size = to_2tuple (Scalar (isqrt len)) in
                 bind (resample interpolate old_grid_size new_grid pos_emb_img) (\<lambda>pos_emb_img.
                 bind (cat0 [pos_emb_tok, pos_emb_img]) (\<lambda>new_pos_embed.
                 Inr (AList.update (prefix @ ''visual.positional_embedding'') new_pos_embed
                        state_dict)))))))))))"

section \<open>Inputs of the properties\<close>

subsection \<open>Well-formed modules and images\<close>



text \<open>
  The transformer width of a \<open>CLIP\<close> is positive; the convolutional backbone has no such
  attribute.
\<close>

definition width_positive :: "clip \<Rightarrow> bool" where
  "width_positive m =
     (case visual m of ModifiedResNet _ \<Rightarrow> True | VisualTransformer v \<Rightarrow> 0 < width v)"

text \<open>
  The number of tokens that leave the masking step of \<open>VisualTransformer.forward\<close> for a
  sequence of \<open>l\<close> tokens: all of them when \<open>mask_ratio\<close> is 0, the class token and the kept
  patch tokens otherwise.
\<close>

definition tokens_after_mask :: "(nat \<Rightarrow> nat \<Rightarrow> real) \<Rightarrow> nat \<Rightarrow> real \<Rightarrow> nat" where
  "tokens_after_mask noise l mr = (if mr = 0 then l else length (ids_keep noise l mr 0) + 1)"

subsection \<open>Vectors\<close>

text \<open>
  The product of a scalar and a vector, the sum of two vectors, a vector as a batch of
  one row, and the value of a text projection head (\<open>Linear\<close>, \<open>ReLU\<close>, \<open>Linear\<close>) on one
  row.
\<close>

definition smult :: "real \<Rightarrow> real list \<Rightarrow> real list" where
  "smult a u = map ((*) a) u"

definition vadd :: "real list \<Rightarrow> real list \<Rightarrow> real list" where
  "vadd u v = map2 (+) u v"

definition row_vector :: "real list \<Rightarrow> array" where
  "row_vector u = \<lparr>dims = [1, length u], vals = u\<rparr>"

definition head_row :: "clip \<Rightarrow> projection \<Rightarrow> real list \<Rightarrow> real list" where
  "head_row m p u = linear_row (linear2 m p) (map (max 0) (linear_row (linear0 m p) u))"

subsection \<open>A small model\<close>

text \<open>
  One image of 2 by 2 pixels, whose first channel holds 0, 1, 2, 3 and whose other
  channels are 0. A \<open>VisualTransformer\<close> of width 1 with patches of one pixel: \<open>conv1\<close>
  has the weights 1, 0, 0 on the three channels, the class embedding is 7, row \<open>i\<close> of the
  positional embedding is \<open>10 * i\<close>, the layer norms are the identity and there is no
  block. Its grid is 2 by 2, so a sequence has 5 tokens.
\<close>

definition tiny_image :: image where
  "tiny_image = \<lparr>img_batch = 1, img_channels = 3, img_height = 2, img_width = 2,
                  pixels = [0, 1, 2, 3, 0, 0, 0, 0, 0, 0, 0, 0]\<rparr>"

definition tiny_vit :: visual_transformer where
  "tiny_vit = \<lparr>input_resolution = 2, patch_size = 1, width = 1, output_dim = 1,
     conv1 = (\<lambda>x. map (\<lambda>k. pixels x ! (k div 4 * 12 + k mod 4)) [0 ..< img_batch x * 4]),
     class_embedding = (\<lambda>_. 7),
     positional_embedding = (\<lambda>i j. 10 * real i),
     ln_pre = (\<lambda>r. r), resblocks = [], ln_post = (\<lambda>r. r),
     proj = None\<rparr>"

text \<open>
  A convolutional backbone that returns one feature per image, text projection heads
  with all weights 1 and all biases 0, and a \<open>CLIP\<close> with \<open>embed_dim\<close> 1 around either
  backbone; its text encoder returns the token ids as hidden states of size 1.
\<close>

definition tiny_resnet :: modified_resnet where
  "tiny_resnet = \<lparr>stem = (\<lambda>x. Inr \<lparr>dims = [img_batch x, 1], vals = replicate (img_batch x) 1\<rparr>),
     layer1 = Inr, layer2 = Inr, layer3 = Inr, layer4 = Inr, attnpool = Inr\<rparr>"

definition tiny_projection :: projection where
  "tiny_projection = \<lparr>weight0 = (\<lambda>_ _. 1), bias0 = (\<lambda>_. 0),
                         weight2 = (\<lambda>_ _. 1), bias2 = (\<lambda>_. 0)\<rparr>"

definition tiny_clip :: "visual \<Rightarrow> clip" where
  "tiny_clip vis = \<lparr>embed_dim = 1, text_hidden_size = 1, visual = vis,
     bert = (\<lambda>text mask. Inr \<lparr>dims = text_dims text @ [1], vals = map real_of_int (ids text)\<rparr>),
     vocab = [(''[PAD]'', 0)],
     text_projection = tiny_projection, text_projection_left = tiny_projection,
     text_projection_right = tiny_projection,
     logit_scale = 0, logit_scale_left = 0, logit_scale_right = 0,
     global_feature_weight = (\<lambda>_ _. 1), left_feature_weight = (\<lambda>_ _. 1),
     right_feature_weight = (\<lambda>_ _. 1)\<rparr>"

definition tiny_model :: clip where
  "tiny_model = tiny_clip (VisualTransformer tiny_vit)"

definition tiny_resnet_model :: clip where
  "tiny_resnet_model = tiny_clip (ModifiedResNet tiny_resnet)"

definition tiny_text :: text_batch where
  "tiny_text = \<lparr>text_dims = [1, 2], ids = [5, 0]\<rparr>"



text \<open>
  A positional-embedding table of \<open>n\<close> rows of one element, and an interpolation that
  fills the new grid with the first element of the old one.
\<close>

definition stored_table :: "nat \<Rightarrow> tensor" where
  "stored_table n = \<lparr>dtype = Float32, shape = [n, 1], elems = map real [0 ..< n]\<rparr>"

definition nearest :: "nat \<Rightarrow> nat list \<Rightarrow> nat list \<Rightarrow> real list \<Rightarrow> real list" where
  "nearest c old new es = replicate (prod_list new * c) (hd es)"

section \<open>Properties of the merge\<close>

lemma map_of_merge_items:
  "is_dict items \<Longrightarrow>
   map_of (merge_items keep items merged) k =
     (if keep k \<and> map_of items k \<noteq> None then map_of items k else map_of merged k)"
  unfolding merge_items_def is_dict_def
proof (induction items arbitrary: merged)
  case Nil
  then show ?case by simp
next
  case (Cons a items)
  obtain k' v' where a: "a = (k', v')" by (cases a)
  from Cons.prems a have notin: "k' \<notin> fst ` set items" and d: "distinct (map fst items)"
    by auto
  from notin have none: "map_of items k' = None"
    by (simp add: map_of_eq_None_iff)
  show ?case
    using Cons.IH [OF d] none a
    by (auto simp: update_conv')
qed

lemma keep_keys_disjoint: "keep_clip_key k \<Longrightarrow> \<not> keep_bert_key k"
proof
  assume c: "keep_clip_key k" and b: "keep_bert_key k"
  from b have b4: "take 4 k = ''bert''"
    by (simp add: keep_bert_key_def startswith_def eval_nat_numeral)
  from c show False
    unfolding keep_clip_key_def
  proof
    assume "startswith k ''visual''"
    then have "take 6 k = ''visual''"
      by (simp add: startswith_def eval_nat_numeral)
    then have "take 4 (take 6 k) = take 4 ''visual''"
      by simp
    then have "take 4 k = ''visu''"
      by (simp add: min_def)
    with b4 show False by simp
  next
    assume "k = ''logit_scale''"
    with b4 show False by simp
  qed
qed

lemma map_of_merged_state_dict:
  assumes "valid_dict_opt clip_sd" "valid_dict_opt bert_sd"
  shows "map_of (merged_state_dict clip_sd bert_sd) k =
           (if keep_bert_key k \<and> lookup_opt bert_sd k \<noteq> None then lookup_opt bert_sd k
            else if keep_clip_key k then lookup_opt clip_sd k else None)"
  using assms
  by (auto simp: merged_state_dict_def lookup_opt_def valid_dict_opt_def
      map_of_merge_items split: option.splits)

text \<open>
  The two tests on a key, in words that do not depend on how \<open>startswith\<close> and
  \<open>contains\<close> compute: a key starts with \<open>p\<close> when it is \<open>p\<close> followed by some rest, and it
  contains \<open>sub\<close> when it is some characters, then \<open>sub\<close>, then some rest.
\<close>

lemma startswith_iff: "startswith s p \<longleftrightarrow> (\<exists>r. s = p @ r)"
proof
  assume "startswith s p"
  then have "s = p @ drop (length p) s"
    unfolding startswith_def by (metis append_take_drop_id)
  then show "\<exists>r. s = p @ r" ..
next
  assume "\<exists>r. s = p @ r"
  then show "startswith s p"
    by (auto simp: startswith_def)
qed

lemma contains_iff: "contains sub s \<longleftrightarrow> (\<exists>a b. s = a @ sub @ b)"
proof (induction s)
  case Nil
  show ?case by simp
next
  case (Cons c cs)
  show ?case
  proof
    assume "contains sub (c # cs)"
    then consider "startswith (c # cs) sub" | "contains sub cs" by auto
    then show "\<exists>a b. c # cs = a @ sub @ b"
    proof cases
      case 1
      then obtain r where "c # cs = sub @ r" by (auto simp: startswith_iff)
      then have "c # cs = [] @ sub @ r" by simp
      then show ?thesis by blast
    next
      case 2
      with Cons.IH obtain a b where "cs = a @ sub @ b" by auto
      then have "c # cs = (c # a) @ sub @ b" by simp
      then show ?thesis by blast
    qed
  next
    assume "\<exists>a b. c # cs = a @ sub @ b"
    then obtain a b where e: "c # cs = a @ sub @ b" by auto
    show "contains sub (c # cs)"
    proof (cases a)
      case Nil
      with e have "startswith (c # cs) sub" by (auto simp: startswith_iff)
      then show ?thesis by simp
    next
      case (Cons a0 as)
      with e have "cs = as @ sub @ b" by simp
      with Cons.IH have "contains sub cs" by auto
      then show ?thesis by simp
    qed
  qed
qed

lemma keep_clip_key_iff:
  "keep_clip_key k \<longleftrightarrow> (\<exists>r. k = ''visual'' @ r) \<or> k = ''logit_scale''"
  unfolding keep_clip_key_def startswith_iff ..

lemma keep_bert_key_iff:
  "keep_bert_key k \<longleftrightarrow> (\<exists>r. k = ''bert'' @ r) \<and> \<not> (\<exists>a b. k = a @ ''bert.pooler'' @ b)"
  unfolding keep_bert_key_def startswith_iff contains_iff ..


text \<open>
  Claim C5. For every pair of input state dicts (each possibly absent), the merged
  mapping holds a key exactly when the key is in \<open>clip_state_dict\<close> and starts with
  "visual" or is "logit\_scale", or is in \<open>bert_state_dict\<close>, starts with "bert" and does
  not contain "bert.pooler"; every other key is dropped, and a kept key maps to the value
  of its source dictionary. The conditions on the key are written out with the literal
  strings: "starts with" as a prefix and "contains" as a substring at any position.
\<close>

theorem restore_model_merged_keys:
  assumes "valid_dict_opt clip_sd" "valid_dict_opt bert_sd"
  shows "(map_of (merged_state_dict clip_sd bert_sd) k \<noteq> None \<longleftrightarrow>
            (lookup_opt clip_sd k \<noteq> None
               \<and> ((\<exists>r. k = ''visual'' @ r) \<or> k = ''logit_scale'')) \<or>
            (lookup_opt bert_sd k \<noteq> None
               \<and> (\<exists>r. k = ''bert'' @ r) \<and> \<not> (\<exists>a b. k = a @ ''bert.pooler'' @ b)))
         \<and> (lookup_opt clip_sd k \<noteq> None
               \<and> ((\<exists>r. k = ''visual'' @ r) \<or> k = ''logit_scale'') \<longrightarrow>
              map_of (merged_state_dict clip_sd bert_sd) k = lookup_opt clip_sd k)
         \<and> (lookup_opt bert_sd k \<noteq> None
               \<and> (\<exists>r. k = ''bert'' @ r) \<and> \<not> (\<exists>a b. k = a @ ''bert.pooler'' @ b) \<longrightarrow>
              map_of (merged_state_dict clip_sd bert_sd) k = lookup_opt bert_sd k)"
  using keep_keys_disjoint [of k]
  unfolding keep_clip_key_iff [symmetric] keep_bert_key_iff [symmetric]
  by (auto simp: map_of_merged_state_dict [OF assms])

theorem restore_model_merged_keys_witness:
  "(let clip_sd = Some [(''visual.proj'', 1::nat), (''logit_scale'', 2), (''bert.x'', 3),
                      (''other'', 4)];
        bert_sd = Some [(''bert.encoder.w'', 5), (''bert.pooler.dense.weight'', 6),
                     (''visual.conv1.weight'', 7)];
        m = merged_state_dict clip_sd bert_sd
    in valid_dict_opt clip_sd \<and> valid_dict_opt bert_sd
       \<and> map_of m ''visual.proj'' = Some 1
       \<and> map_of m ''logit_scale'' = Some 2
       \<and> map_of m ''bert.encoder.w'' = Some 5
       \<and> map_of m ''bert.pooler.dense.weight'' = None
       \<and> map_of m ''bert.x'' = None
       \<and> map_of m ''visual.conv1.weight'' = None
       \<and> map_of m ''other'' = None
       \<and> m = [(''visual.proj'', 1), (''logit_scale'', 2), (''bert.encoder.w'', 5)])"
proof -
  let ?clip_sd = "Some [(''visual.proj'', 1::nat), (''logit_scale'', 2), (''bert.x'', 3),
                      (''other'', 4)]"
  let ?bert_sd = "Some [(''bert.encoder.w'', 5::nat), (''bert.pooler.dense.weight'', 6),
                     (''visual.conv1.weight'', 7)]"
  have v1: "valid_dict_opt ?clip_sd" and v2: "valid_dict_opt ?bert_sd"
    by (simp_all add: valid_dict_opt_def is_dict_def)
  have m: "merged_state_dict ?clip_sd ?bert_sd
            = [(''visual.proj'', 1), (''logit_scale'', 2), (''bert.encoder.w'', 5)]"
    by (simp add: merged_state_dict_def merge_items_def keep_clip_key_def keep_bert_key_def
        startswith_def)
  from restore_model_merged_keys [OF v1 v2, of "''visual.proj''"]
       restore_model_merged_keys [OF v1 v2, of "''bert.encoder.w''"]
       restore_model_merged_keys [OF v1 v2, of "''bert.pooler.dense.weight''"]
  show ?thesis
    using v1 v2 m by (simp add: Let_def)
qed

section \<open>Properties of convert\_state\_dict\<close>

text \<open>
  A state dict in the separate layout with one text layer, its keys starting with \<open>p\<close>
  (\<open>module.\<close> or nothing), and the same parameters in the fused layout: query, key and
  value concatenated in that order on dimension 0.
\<close>

definition vector1 :: "real \<Rightarrow> tensor" where
  "vector1 x = \<lparr>dtype = Float32, shape = [1], elems = [x]\<rparr>"

definition matrix11 :: "real \<Rightarrow> tensor" where
  "matrix11 x = \<lparr>dtype = Float32, shape = [1, 1], elems = [x]\<rparr>"

definition separate_layout :: "string \<Rightarrow> tensor pydict" where
  "separate_layout p =
    [(p @ ''bert.encoder.layer.0.attention.self.query.weight'', matrix11 1),
     (p @ ''bert.encoder.layer.0.attention.self.key.weight'', matrix11 2),
     (p @ ''bert.encoder.layer.0.attention.self.value.weight'', matrix11 3),
     (p @ ''bert.encoder.layer.0.attention.self.query.bias'', vector1 4),
     (p @ ''bert.encoder.layer.0.attention.self.key.bias'', vector1 5),
     (p @ ''bert.encoder.layer.0.attention.self.value.bias'', vector1 6),
     (p @ ''bert.encoder.layer.0.attention.output.dense.weight'', matrix11 7),
     (p @ ''bert.encoder.layer.0.attention.output.dense.bias'', vector1 8)]"

definition fused_layout :: "string \<Rightarrow> tensor pydict" where
  "fused_layout p =
    [(p @ ''bert.encoder.layer.0.attention.self.Wqkv.weight'',
        \<lparr>dtype = Float32, shape = [3, 1], elems = [1, 2, 3]\<rparr>),
     (p @ ''bert.encoder.layer.0.attention.self.Wqkv.bias'',
        \<lparr>dtype = Float32, shape = [3], elems = [4, 5, 6]\<rparr>),
     (p @ ''bert.encoder.layer.0.attention.self.out_proj.weight'', matrix11 7),
     (p @ ''bert.encoder.layer.0.attention.self.out_proj.bias'', vector1 8)]"

lemmas convert_state_dict_eval =
  convert_state_dict_def convert_visual_def convert_text_def has_key_def
  startswith_def bind_def fuse_loop.simps split_loop.simps fuse_layer_def split_layer_def
  layer_key_def str_nat.simps dict_pop_def cat0_def chunk3_def unpack3_def promote_def
  row_size_def Let_def vector1_def matrix11_def

text \<open>
  With the \<open>module.\<close> prefix the two conversions undo each other on this state dict.
\<close>

lemma convert_state_dict_module_fuse:
  "convert_state_dict (separate_layout ''module.'') = Inr (fused_layout ''module.'')"
  unfolding separate_layout_def fused_layout_def
  by (simp add: convert_state_dict_eval)

lemma convert_state_dict_module_split:
  "convert_state_dict (fused_layout ''module.'') = Inr (separate_layout ''module.'')"
  unfolding separate_layout_def fused_layout_def
  by (simp add: convert_state_dict_eval)

text \<open>
  Claim C4 says that converting twice gives back the original state dict, whether or not
  the keys carry the \<open>module.\<close> prefix. Without the prefix the first conversion gives the
  fused layout, and the second one raises KeyError: it pops
  \<open>module.bert.encoder.layer.0.attention.self.out_proj.bias\<close>, a key the dictionary does
  not have.
\<close>

theorem convert_state_dict_no_prefix_KeyError:
  "convert_state_dict (separate_layout []) = Inr (fused_layout [])
   \<and> convert_state_dict (fused_layout []) = Inl KeyError"
  unfolding separate_layout_def fused_layout_def
  by (simp add: convert_state_dict_eval)

section \<open>Properties of the precision conversions\<close>

text \<open>
  What is right in claim C8: when the loop of \<open>convert_weights\<close> runs to its end, the
  data of every parameter is in half precision, and none is added or left out.
\<close>

lemma for_each_length: "for_each f ps = Inr ps' \<Longrightarrow> length ps' = length ps"
  by (induction ps arbitrary: ps') (auto split: sum.splits)

lemma fp16_param_data:
  "fp16_param rnd p = Inr p' \<Longrightarrow> dtype (data p') = Float16"
  by (auto simp: fp16_param_def Let_def half_def split: sum.splits bool.splits if_splits)

lemma convert_weights_data_half:
  "convert_weights rnd ps = Inr ps' \<Longrightarrow>
   length ps' = length ps \<and> list_all (\<lambda>p. dtype (data p) = Float16) ps'"
  unfolding convert_weights_def
  by (induction ps arbitrary: ps') (auto split: sum.splits dest: fp16_param_data)

text \<open>
  Claim C8 says that \<open>convert_weights\<close> converts every gradient that is present to half
  precision and that \<open>convert_models_to_fp32\<close> converts every gradient that is present to
  full precision. Three parameters with a gradient:
  \<^item> a gradient with the one element 1, in half precision: \<open>convert_weights\<close> converts it
    to single precision (\<^verbatim>\<open>param.grad.data.float()\<close>);
  \<^item> a gradient with two elements: \<^verbatim>\<open>if param.grad:\<close> raises RuntimeError, in both
    functions;
  \<^item> a gradient with the one element 0, in half precision: the test is false, and
    \<open>convert_models_to_fp32\<close> leaves it in half precision.
\<close>

theorem convert_weights_gradients:
  "convert_weights rnd
     [\<lparr>data = \<lparr>dtype = Float32, shape = [1], elems = [3]\<rparr>,
       grad = Some \<lparr>dtype = Float16, shape = [1], elems = [1]\<rparr>\<rparr>]
   = Inr [\<lparr>data = \<lparr>dtype = Float16, shape = [1], elems = [rnd 3]\<rparr>,
            grad = Some \<lparr>dtype = Float32, shape = [1], elems = [1]\<rparr>\<rparr>]
   \<and> convert_weights rnd
     [\<lparr>data = \<lparr>dtype = Float32, shape = [1], elems = [3]\<rparr>,
       grad = Some \<lparr>dtype = Float32, shape = [2], elems = [0, 1]\<rparr>\<rparr>]
   = Inl RuntimeError
   \<and> convert_models_to_fp32
     [\<lparr>data = \<lparr>dtype = Float16, shape = [1], elems = [3]\<rparr>,
       grad = Some \<lparr>dtype = Float16, shape = [2], elems = [0, 1]\<rparr>\<rparr>]
   = Inl RuntimeError
   \<and> convert_models_to_fp32
     [\<lparr>data = \<lparr>dtype = Float16, shape = [1], elems = [3]\<rparr>,
       grad = Some \<lparr>dtype = Float16, shape = [1], elems = [0]\<rparr>\<rparr>]
   = Inr [\<lparr>data = \<lparr>dtype = Float32, shape = [1], elems = [3]\<rparr>,
            grad = Some \<lparr>dtype = Float16, shape = [1], elems = [0]\<rparr>\<rparr>]"
  by (simp add: convert_weights_def convert_models_to_fp32_def fp16_param_def fp32_param_def
      grad_truth_def tensor_bool_def numel_def half_def float_def)

section \<open>Properties of the exceptions\<close>

lemma bind_Inr_iff: "bind m f = Inr y \<longleftrightarrow> (\<exists>x. m = Inr x \<and> f x = Inr y)"
  by (cases m) (auto simp: bind_def)

lemma isl_bind: "isl (bind m f) \<longleftrightarrow> isl m \<or> (\<exists>x. m = Inr x \<and> isl (f x))"
  by (cases m) (auto simp: bind_def)

lemma isl_bind_all: "(\<And>x. m = Inr x \<Longrightarrow> isl (f x)) \<Longrightarrow> isl (bind m f)"
  by (cases m) (auto simp: bind_def)

section \<open>Shapes through VisualTransformer.forward\<close>

lemma dims_map_last [simp]: "dims (map_last d f x) = butlast (dims x) @ [d]"
  by (simp add: map_last_def)

lemma LayerNorm_dims: "LayerNorm d f x = Inr y \<Longrightarrow> dims y = dims x \<and> last (dims x) = d \<and> dims x \<noteq> []"
  by (auto simp: LayerNorm_def split: if_splits)

lemma Linear_dims:
  "Linear lin x = Inr y \<Longrightarrow>
   dims y = butlast (dims x) @ [out_features lin] \<and> last (dims x) = in_features lin \<and> dims x \<noteq> []"
  by (auto simp: Linear_def split: if_splits)

lemma add_dims: "add x y = Inr z \<Longrightarrow> dims z = dims x"
  by (auto simp: add_def split: if_splits)

lemma block_forward_dims: "ResidualAttentionBlock_forward d b x = Inr y \<Longrightarrow> dims y = dims x"
  by (auto simp: ResidualAttentionBlock_forward_def bind_Inr_iff dest!: add_dims)

lemma Transformer_forward_dims: "Transformer_forward d rs x = Inr y \<Longrightarrow> dims y = dims x"
  by (induction rs arbitrary: x) (auto simp: bind_Inr_iff dest!: block_forward_dims)

lemma conv1_forward_dims:
  "conv1_forward v x = Inr y \<Longrightarrow>
   dims y = [img_batch x, width v, img_height x div patch_size v, img_width x div patch_size v]"
  by (auto simp: conv1_forward_def split: if_splits)

lemma reshape_flat_dims:
  "reshape_flat x = Inr y \<Longrightarrow> dims x = [a, b, c, d] \<Longrightarrow> dims y = [a, b, c * d] \<and> a * b \<noteq> 0"
  by (auto simp: reshape_flat_def split: if_splits)

lemma permute_021_dims: "permute_021 x = Inr y \<Longrightarrow> dims x = [a, b, c] \<Longrightarrow> dims y = [a, c, b]"
  by (auto simp: permute_021_def)

lemma permute_102_dims: "permute_102 x = Inr y \<Longrightarrow> dims x = [a, b, c] \<Longrightarrow> dims y = [b, a, c]"
  by (auto simp: permute_102_def)

lemma cat_class_embedding_dims:
  "cat_class_embedding v x = Inr y \<Longrightarrow> dims x = [n, g, w] \<Longrightarrow> dims y = [n, g + 1, w] \<and> w = width v"
  by (auto simp: cat_class_embedding_def split: if_splits)

lemma add_positional_embedding_dims:
  "add_positional_embedding v x = Inr y \<Longrightarrow> dims x = [n, l, w] \<Longrightarrow>
   dims y = [n, max l (num_positions v), w]"
  by (auto simp: add_positional_embedding_def Let_def split: if_splits)

lemma random_masking_dims:
  "random_masking noise x mr = Inr y \<Longrightarrow> dims x = [n, l, w] \<Longrightarrow>
   dims y = [n, length (ids_keep noise l mr 0) + 1, w]"
  by (auto simp: random_masking_def split: if_splits)

text \<open>
  With \<open>return_all_features\<close> the result is the whole sequence, of \<open>width\<close> elements per
  token.
\<close>

lemma VisualTransformer_forward_dims:
  assumes "VisualTransformer_forward v noise x mr True = Inr y"
  shows "dims y = [img_batch x,
           tokens_after_mask noise
             (max ((img_height x div patch_size v) * (img_width x div patch_size v) + 1)
                  (num_positions v)) mr,
           width v]"
proof -
  from assms obtain x1 x2 x3 x4 x5 x6 x7 x8 x9 x10 where
    s1: "conv1_forward v x = Inr x1" and
    s2: "reshape_flat x1 = Inr x2" and
    s3: "permute_021 x2 = Inr x3" and
    s4: "cat_class_embedding v x3 = Inr x4" and
    s5: "add_positional_embedding v x4 = Inr x5" and
    s6: "(if mr \<noteq> 0 then random_masking noise x5 mr else Inr x5) = Inr x6" and
    s7: "LayerNorm (width v) (ln_pre v) x6 = Inr x7" and
    s8: "permute_102 x7 = Inr x8" and
    s9: "Transformer_forward (width v) (resblocks v) x8 = Inr x9" and
    s10: "LayerNorm (width v) (ln_post v) x9 = Inr x10" and
    s11: "permute_102 x10 = Inr y"
    unfolding VisualTransformer_forward_def by (auto simp: bind_Inr_iff)
  let ?g = "(img_height x div patch_size v) * (img_width x div patch_size v)"
  have d1: "dims x1 = [img_batch x, width v, img_height x div patch_size v,
                       img_width x div patch_size v]"
    using s1 by (rule conv1_forward_dims)
  have d2: "dims x2 = [img_batch x, width v, ?g]"
    using reshape_flat_dims [OF s2 d1] by simp
  have d3: "dims x3 = [img_batch x, ?g, width v]"
    using permute_021_dims [OF s3 d2] .
  have d4: "dims x4 = [img_batch x, ?g + 1, width v]"
    using cat_class_embedding_dims [OF s4 d3] by simp
  have d5: "dims x5 = [img_batch x, max (?g + 1) (num_positions v), width v]"
    using add_positional_embedding_dims [OF s5 d4] .
  have d6: "dims x6 = [img_batch x,
      tokens_after_mask noise (max (?g + 1) (num_positions v)) mr, width v]"
    using s6 d5 random_masking_dims [of noise x5 mr x6, OF _ d5]
    by (auto simp: tokens_after_mask_def split: if_splits)
  have d7: "dims x7 = dims x6" using LayerNorm_dims [OF s7] by simp
  have d8: "dims x8 = [tokens_after_mask noise (max (?g + 1) (num_positions v)) mr,
      img_batch x, width v]"
    using permute_102_dims [OF s8] d7 d6 by simp
  have d9: "dims x9 = dims x8" using Transformer_forward_dims [OF s9] .
  have d10: "dims x10 = dims x9" using LayerNorm_dims [OF s10] by simp
  show ?thesis
    using permute_102_dims [OF s11] d10 d9 d8 by simp
qed

lemma QuickGELU_dims [simp]: "dims (QuickGELU x) = dims x"
  by (simp add: QuickGELU_def)





section \<open>Properties of random\_masking\<close>

lemma length_argsort [simp]: "length (argsort xs) = length xs"
  by (simp add: argsort_def)

lemma set_argsort [simp]: "set (argsort xs) = {0 ..< length xs}"
  by (simp add: argsort_def)

lemma distinct_argsort [simp]: "distinct (argsort xs)"
  by (simp add: argsort_def)













section \<open>The small model, evaluated\<close>

lemmas vit_eval = VisualTransformer_forward_def conv1_forward_def reshape_flat_def
  permute_021_def permute_102_def cat_class_embedding_def add_positional_embedding_def
  random_masking_def LayerNorm_def map_last_def blocks_def block_def token_def at3_def
  num_positions_def bind_def Let_def tiny_vit_def tiny_image_def ids_keep_def len_keep_def
  int_of_real_def slice_to_def argsort_def upt_conv_Cons

lemma tiny_vit_forward: "VisualTransformer_forward tiny_vit (\<lambda>_ _. 0) tiny_image 0 True
   = Inr \<lparr>dims = [1, 5, 1], vals = [7, 10, 21, 32, 43]\<rparr>"
  by (simp add: vit_eval)



lemma tiny_vit_both_images: "encode_image (tiny_clip (VisualTransformer tiny_vit)) (\<lambda>_ _ _. 0) (Some tiny_image) (Some tiny_image) 0 False
   = Inl RuntimeError"
  by (simp add: encode_image_def visual_single_def type_image_def tiny_clip_def tiny_vit_forward bind_def
      cat1_def apply_mapping_def feature_mapping_def global_feature_mapping_def Linear_def)

lemma tiny_resnet_both_images: "encode_image (tiny_clip (ModifiedResNet tiny_resnet)) (\<lambda>_ _ _. 0) (Some tiny_image) (Some tiny_image) 0 False
   = Inl AttributeError"
  by (simp add: encode_image_def visual_single_def type_image_def tiny_clip_def bind_def
      ModifiedResNet_forward_def tiny_resnet_def tiny_image_def
      cat1_def apply_mapping_def feature_mapping_def global_feature_mapping_def Linear_def
      map_last_def blocks_def block_def linear_row_def dot_def)

lemma tiny_model_both_images: "encode_image tiny_model (\<lambda>_ _ _. 0) (Some tiny_image) (Some tiny_image) 0 False
   = Inl RuntimeError"
  using tiny_vit_both_images by (simp add: tiny_model_def)

lemma tiny_resnet_model_both_images: "encode_image tiny_resnet_model (\<lambda>_ _ _. 0) (Some tiny_image) (Some tiny_image) 0 False
   = Inl AttributeError"
  using tiny_resnet_both_images by (simp add: tiny_resnet_model_def)

section \<open>Properties of encode\_image\<close>

subsection \<open>One image\<close>






subsection \<open>Both images\<close>

lemma single_feature_mapping_missing:
  "apply_mapping m ''single_feature_mapping'' x = Inl AttributeError"
  by (simp add: apply_mapping_def feature_mapping_def bind_def)

lemma cat1_dims:
  "cat1 x y = Inr z \<Longrightarrow> dims x = [a, b, c] \<Longrightarrow> dims y = [a', b', c'] \<Longrightarrow> dims z = [a, b + b', c]"
  by (auto simp: cat1_def split: if_splits)

lemma apply_mapping_Inr:
  "apply_mapping m name x = Inr y \<Longrightarrow>
   \<exists>f. feature_mapping m name = Inr f \<and> dims x \<noteq> [] \<and> last (dims x) = in_features f"
  by (auto simp: apply_mapping_def bind_Inr_iff dest: Linear_dims)

lemma visual_single_vit_dims:
  assumes "visual m = VisualTransformer v" "visual_single m noise img mr = Inr y"
  shows "\<exists>n l. dims y = [n, l, width v]"
proof -
  from assms obtain x where "VisualTransformer_forward v noise x mr True = Inr y"
    by (auto simp: visual_single_def bind_Inr_iff)
  from VisualTransformer_forward_dims [OF this] show ?thesis by blast
qed

lemma encode_image_both_raises:
  assumes "width_positive m" "img_l \<noteq> None" "img_r \<noteq> None"
  shows "isl (encode_image m rng img_l img_r mr raf)"
proof (cases "visual m")
  case (ModifiedResNet r)
  then show ?thesis
    using assms
    by (auto simp: encode_image_def single_feature_mapping_missing bind_def split: sum.splits)
next
  case (VisualTransformer v)
  have w: "0 < width v" using assms(1) VisualTransformer by (simp add: width_positive_def)
  show ?thesis
  proof (rule ccontr)
    assume "\<not> isl (encode_image m rng img_l img_r mr raf)"
    then obtain res where res: "encode_image m rng img_l img_r mr raf = Inr res"
      by (cases "encode_image m rng img_l img_r mr raf") auto
    from res assms(2,3) VisualTransformer obtain lf rf vf g l where
      lf: "visual_single m (rng 0) img_l mr = Inr lf" and
      rf: "visual_single m (rng 1) img_r mr = Inr rf" and
      vf: "cat1 lf rf = Inr vf" and
      g: "apply_mapping m ''global_feature_mapping'' vf = Inr g" and
      l: "apply_mapping m ''left_feature_mapping'' lf = Inr l"
      by (auto simp: encode_image_def bind_Inr_iff)
    from visual_single_vit_dims [OF VisualTransformer lf] obtain n k
      where dl: "dims lf = [n, k, width v]" by blast
    from visual_single_vit_dims [OF VisualTransformer rf] obtain n' k'
      where dr: "dims rf = [n', k', width v]" by blast
    from cat1_dims [OF vf dl dr] have dv: "dims vf = [n, k + k', width v]" .
    from apply_mapping_Inr [OF g] dv have "width v = 2 * embed_dim m"
      by (auto simp: feature_mapping_def global_feature_mapping_def)
    moreover from apply_mapping_Inr [OF l] dl have "width v = embed_dim m"
      by (auto simp: feature_mapping_def left_feature_mapping_def)
    ultimately show False using w by simp
  qed
qed

text \<open>
  Claim C1. With both images present \<open>encode_image\<close> returns nothing: it raises, for every
  model, every pair of image batches, every \<open>mask_ratio\<close> and either value of
  \<open>return_all_features\<close>. With the convolutional backbone it reads the attribute
  \<open>single_feature_mapping\<close>, which no \<open>CLIP\<close> has. With the \<open>VisualTransformer\<close> it asks
  the backbone for all token features, of \<open>width\<close> elements each, and applies to them
  both \<open>global_feature_mapping\<close>, which takes \<open>2 * embed_dim\<close> elements, and
  \<open>left_feature_mapping\<close>, which takes \<open>embed_dim\<close>: a positive \<open>width\<close> is not both.
\<close>

theorem encode_image_both_sides_raises:
  assumes "width_positive m"
  shows "isl (encode_image m rng (Some img_l) (Some img_r) mask_ratio return_all_features)"
  using assms by (intro encode_image_both_raises) simp_all

theorem encode_image_both_sides_raises_witness:
  "width_positive tiny_model \<and> width_positive tiny_resnet_model
   \<and> encode_image tiny_model (\<lambda>_ _ _. 0) (Some tiny_image) (Some tiny_image) 0 False
       = Inl RuntimeError
   \<and> encode_image tiny_resnet_model (\<lambda>_ _ _. 0) (Some tiny_image) (Some tiny_image) 0 False
       = Inl AttributeError"
proof -
  have 1: "width_positive tiny_model"
    by (simp add: width_positive_def tiny_model_def tiny_clip_def tiny_vit_def)
  have 2: "width_positive tiny_resnet_model"
    by (simp add: width_positive_def tiny_resnet_model_def tiny_clip_def)
  from encode_image_both_sides_raises [OF 1, of "\<lambda>_ _ _. 0" tiny_image tiny_image 0 False]
       encode_image_both_sides_raises [OF 2, of "\<lambda>_ _ _. 0" tiny_image tiny_image 0 False]
  show ?thesis
    using 1 2 tiny_model_both_images tiny_resnet_model_both_images by simp
qed

section \<open>Properties of forward\<close>

lemma forward_all_present_raises:
  assumes "width_positive m"
  shows "isl (forward m rng (Some l) (Some r) (Some text) mr)"
proof -
  have "isl (encode_image m rng (Some l) (Some r) mr False)"
    using assms by (intro encode_image_both_raises) simp_all
  then show ?thesis
    by (simp add: forward_def isl_bind)
qed

text \<open>
  Claim C2. When both images and the text are present, \<open>forward\<close> returns no 9-tuple: it
  raises, because its first step is \<open>encode_image\<close> on both images.
\<close>

theorem forward_joint_raises:
  assumes "width_positive m"
  shows "isl (forward m rng (Some img_l) (Some img_r) (Some text) mask_ratio)"
  using assms by (rule forward_all_present_raises)

theorem forward_joint_raises_witness:
  "width_positive tiny_model \<and> width_positive tiny_resnet_model
   \<and> forward tiny_model (\<lambda>_ _ _. 0) (Some tiny_image) (Some tiny_image) (Some tiny_text) 0
       = Inl RuntimeError
   \<and> forward tiny_resnet_model (\<lambda>_ _ _. 0) (Some tiny_image) (Some tiny_image) (Some tiny_text) 0
       = Inl AttributeError"
proof -
  have 1: "width_positive tiny_model"
    by (simp add: width_positive_def tiny_model_def tiny_clip_def tiny_vit_def)
  have 2: "width_positive tiny_resnet_model"
    by (simp add: width_positive_def tiny_resnet_model_def tiny_clip_def)
  from forward_joint_raises [OF 1, of "\<lambda>_ _ _. 0" tiny_image tiny_image tiny_text 0]
       forward_joint_raises [OF 2, of "\<lambda>_ _ _. 0" tiny_image tiny_image tiny_text 0]
  show ?thesis
    using 1 2 by (simp add: forward_def tiny_model_both_images tiny_resnet_model_both_images bind_def)
qed

section \<open>Properties of get\_similarity\<close>

lemma encode_text_Tuple:
  "encode_text m text = Inr v \<Longrightarrow> \<exists>a b c. v = Tuple [Tensor a, Tensor b, Tensor c]"
  by (auto simp: encode_text_def bind_Inr_iff split: option.splits)

lemma get_similarity_raises: "isl (get_similarity m rng img_l img_r text)"
  unfolding get_similarity_def Let_def
  apply (rule isl_bind_all)+
  apply (drule encode_text_Tuple)
  apply (auto simp: div_norm_dim1_def)
  done

text \<open>
  Claim C3. \<open>get_similarity\<close> returns no pair of matrices: it raises on every input. When
  the two encoders return, \<open>text_features\<close> is the tuple of three tensors that
  \<open>encode_text\<close> returns, and a tuple has no attribute \<open>norm\<close>.
\<close>

theorem get_similarity_never_returns: "isl (get_similarity m rng img_l img_r text)"
  by (rule get_similarity_raises)

section \<open>Properties of the text projection heads\<close>

lemma dot_affine:
  assumes "length u = length v"
  shows "dot w (vadd (smult a u) (smult b v)) = a * dot w u + b * dot w v"
proof -
  have "dot w (vadd (smult a u) (smult b v))
        = sum_list (map (\<lambda>i. a * (w i * u ! i) + b * (w i * v ! i)) [0 ..< length u])"
    unfolding dot_def vadd_def smult_def using assms
    by (auto intro!: arg_cong [where f = sum_list] simp: algebra_simps)
  also have "\<dots> = a * dot w u + b * dot w v"
    unfolding dot_def using assms
    by (simp add: sum_list_addf sum_list_const_mult)
  finally show ?thesis .
qed

lemma length_linear_row [simp]: "length (linear_row lin x) = out_features lin"
  by (simp add: linear_row_def)

lemma linear_row_affine:
  assumes "length u = length v"
  shows "linear_row lin (vadd (smult a u) (smult (1 - a) v))
         = vadd (smult a (linear_row lin u)) (smult (1 - a) (linear_row lin v))"
  using assms
  by (auto simp: linear_row_def vadd_def smult_def dot_affine [unfolded vadd_def smult_def]
      algebra_simps list_eq_iff_nth_eq split: option.splits)

lemma relu_id: "\<forall>x\<in>set xs. 0 \<le> x \<Longrightarrow> map (max 0) xs = (xs :: real list)"
  by (induction xs) auto

lemma head_row_affine:
  assumes len: "length u = length v"
    and a: "0 \<le> a" "a \<le> 1"
    and pu: "\<forall>x\<in>set (linear_row (linear0 m p) u). 0 \<le> x"
    and pv: "\<forall>x\<in>set (linear_row (linear0 m p) v). 0 \<le> x"
  shows "head_row m p (vadd (smult a u) (smult (1 - a) v))
         = vadd (smult a (head_row m p u)) (smult (1 - a) (head_row m p v))"
proof -
  let ?hu = "linear_row (linear0 m p) u" and ?hv = "linear_row (linear0 m p) v"
  have h: "linear_row (linear0 m p) (vadd (smult a u) (smult (1 - a) v))
           = vadd (smult a ?hu) (smult (1 - a) ?hv)"
    using len by (rule linear_row_affine)
  have "\<forall>x\<in>set (vadd (smult a ?hu) (smult (1 - a) ?hv)). 0 \<le> x"
  proof
    fix x assume "x \<in> set (vadd (smult a ?hu) (smult (1 - a) ?hv))"
    then obtain i where i: "i < length ?hu" "x = a * ?hu ! i + (1 - a) * ?hv ! i"
      by (auto simp: vadd_def smult_def set_conv_nth)
    have "0 \<le> ?hu ! i" "0 \<le> ?hv ! i" using pu pv i(1) by auto
    then show "0 \<le> x" using a i(2) by simp
  qed
  then have r: "map (max 0) (vadd (smult a ?hu) (smult (1 - a) ?hv))
                = vadd (smult a ?hu) (smult (1 - a) ?hv)"
    by (rule relu_id)
  have "length ?hu = length ?hv" by simp
  from linear_row_affine [OF this, of "linear2 m p" a] show ?thesis
    unfolding head_row_def h r using relu_id [OF pu] relu_id [OF pv] by simp
qed

lemma blocks_one: "length u = h \<Longrightarrow> blocks h (Suc 0) u = [u]"
  by (simp add: blocks_def block_def)

lemma Linear_row_vector:
  "length u = in_features lin \<Longrightarrow>
   Linear lin (row_vector u) = Inr (row_vector (linear_row lin u))"
  by (simp add: Linear_def row_vector_def map_last_def blocks_one)

lemma ReLU_row_vector: "ReLU (row_vector u) = row_vector (map (max 0) u)"
  by (simp add: ReLU_def row_vector_def)

lemma Sequential_row_vector:
  assumes "length u = text_hidden_size m"
  shows "Sequential m p (row_vector u) = Inr (row_vector (head_row m p u))"
proof -
  have 0: "Linear (linear0 m p) (row_vector u) = Inr (row_vector (linear_row (linear0 m p) u))"
    using assms by (intro Linear_row_vector) (simp add: linear0_def)
  have 2: "Linear (linear2 m p) (row_vector (map (max 0) (linear_row (linear0 m p) u)))
           = Inr (row_vector (head_row m p u))"
    unfolding head_row_def
    by (intro Linear_row_vector) (simp add: linear0_def linear2_def)
  show ?thesis
    by (simp add: Sequential_def 0 bind_def ReLU_row_vector 2)
qed

lemma length_vadd_smult [simp]:
  "length (vadd (smult a u) (smult b v)) = min (length u) (length v)"
  by (simp add: vadd_def smult_def)

text \<open>
  Claim C7, amended. Each text projection head is \<open>Linear\<close>, \<open>ReLU\<close>, \<open>Linear\<close>, with
  biases. On hidden vectors \<open>u\<close> and \<open>v\<close> whose first layer gives no negative element the
  \<open>ReLU\<close> changes nothing, and the head is affine between them: for every \<open>a\<close> from 0 to 1,
  \<open>head(a * u + (1 - a) * v) = a * head(u) + (1 - a) * head(v)\<close>. This holds for every
  projection of the model, so for the global, the left and the right head.
\<close>

theorem text_projection_affine:
  assumes "length u = text_hidden_size m" "length v = text_hidden_size m"
    and "0 \<le> a" "a \<le> 1"
    and "\<forall>x\<in>set (linear_row (linear0 m p) u). 0 \<le> x"
    and "\<forall>x\<in>set (linear_row (linear0 m p) v). 0 \<le> x"
  shows "Sequential m p (row_vector u) = Inr (row_vector (head_row m p u))
       \<and> Sequential m p (row_vector v) = Inr (row_vector (head_row m p v))
       \<and> Sequential m p (row_vector (vadd (smult a u) (smult (1 - a) v)))
           = Inr (row_vector (vadd (smult a (head_row m p u)) (smult (1 - a) (head_row m p v))))"
proof -
  have "length u = length v" using assms by simp
  from head_row_affine [OF this assms(3-6)]
  show ?thesis
    using assms(1,2) by (simp add: Sequential_row_vector)
qed

lemma tiny_head [simp]:
  "head_row tiny_model tiny_projection [x] = [max 0 x]"
  by (simp add: head_row_def linear_row_def linear0_def linear2_def dot_def tiny_model_def
      tiny_clip_def tiny_projection_def)

text \<open>
  The head of the small model is \<open>max 0\<close>. For \<open>u = [1]\<close>, \<open>v = [0]\<close> and \<open>a = - 1\<close> it gives
  \<open>head(a * u + v) = [0]\<close>, and \<open>a * head(u) + head(v) = [- 1]\<close>.
\<close>

theorem text_projection_not_linear:
  "Sequential tiny_model (text_projection tiny_model) (row_vector [1]) = Inr (row_vector [1])
   \<and> Sequential tiny_model (text_projection tiny_model) (row_vector [0]) = Inr (row_vector [0])
   \<and> vadd (smult (- 1) [1]) [0] = [- 1]
   \<and> Sequential tiny_model (text_projection tiny_model) (row_vector [- 1])
       = Inr (row_vector [0])
   \<and> row_vector [0] \<noteq> row_vector [- 1]"
proof -
  have h: "text_hidden_size tiny_model = 1" by (simp add: tiny_model_def tiny_clip_def)
  have p: "text_projection tiny_model = tiny_projection"
    by (simp add: tiny_model_def tiny_clip_def)
  have "Sequential tiny_model tiny_projection (row_vector [x]) = Inr (row_vector [max 0 x])" for x
    using Sequential_row_vector [of "[x]" tiny_model tiny_projection] h by simp
  then show ?thesis
    by (simp add: p vadd_def smult_def row_vector_def)
qed
theorem text_projection_affine_witness:
  "length [1::real] = text_hidden_size tiny_model \<and> length [3::real] = text_hidden_size tiny_model
   \<and> Sequential tiny_model tiny_projection (row_vector (vadd (smult (1/2) [1]) (smult (1 - 1/2) [3])))
       = Inr (row_vector [2])"
proof -
  have h: "text_hidden_size tiny_model = 1" by (simp add: tiny_model_def tiny_clip_def)
  have l: "linear_row (linear0 tiny_model tiny_projection) [x] = [x]" for x
    by (simp add: linear_row_def linear0_def dot_def tiny_model_def tiny_clip_def
        tiny_projection_def)
  from text_projection_affine [of "[1]" tiny_model "[3]" "1/2" tiny_projection]
  show ?thesis
    by (simp add: h l vadd_def smult_def)
qed

section \<open>Properties of resize\_pos\_embed\<close>

lemma resize_pos_embed_same:
  assumes "map_of sd (prefix @ ''visual.positional_embedding'') = Some old"
    and "visual (unwrap model) = VisualTransformer v"
    and "shape old = n # rest"
    and "n = fst (grid_size v) * snd (grid_size v) + 1"
  shows "resize_pos_embed interp sd model prefix = Inr sd"
  using assms
  by (simp add: resize_pos_embed_def visual_grid_size_def to_2tuple_def ntuple_def index_def
      shape0_def bind_def Let_def)

lemma resize_pos_embed_absent:
  "map_of sd (prefix @ ''visual.positional_embedding'') = None \<or>
   (\<exists>r. visual (unwrap model) = ModifiedResNet r) \<Longrightarrow>
   resize_pos_embed interp sd model prefix = Inr sd"
  by (auto simp: resize_pos_embed_def visual_grid_size_def split: option.splits)

text \<open>
  Claim C9. When the stored table \<open>visual.positional_embedding\<close> has as many rows as the
  model expects, \<open>grid_size[0] * grid_size[1] + 1\<close> with both grid sizes
  \<open>input_resolution // patch_size\<close>, \<open>resize_pos_embed\<close> returns and leaves the state dict
  as it was: the same keys in the same order with the same values, for every prefix,
  every interpolation and a model that is wrapped or not.
\<close>

theorem resize_pos_embed_same_grid:
  assumes "map_of state_dict (prefix @ ''visual.positional_embedding'') = Some old_pos_embed"
    and "visual (unwrap model) = VisualTransformer v"
    and "shape old_pos_embed = n # rest"
    and "n = (input_resolution v div patch_size v) * (input_resolution v div patch_size v) + 1"
  shows "grid_size v = (input_resolution v div patch_size v, input_resolution v div patch_size v)
         \<and> resize_pos_embed interpolate state_dict model prefix = Inr state_dict"
proof -
  have g: "grid_size v = (input_resolution v div patch_size v, input_resolution v div patch_size v)"
    by (simp add: grid_size_def)
  from assms(4) have "n = fst (grid_size v) * snd (grid_size v) + 1"
    by (simp add: g)
  with assms(1-3) have "resize_pos_embed interpolate state_dict model prefix = Inr state_dict"
    by (rule resize_pos_embed_same)
  with g show ?thesis ..
qed

lemma tiny_grid: "grid_size tiny_vit = (2, 2)"
  by (simp add: grid_size_def tiny_vit_def)

theorem resize_pos_embed_same_grid_witness:
  "map_of [(''visual.positional_embedding'', stored_table 5), (''logit_scale'', stored_table 1)]
      ([] @ ''visual.positional_embedding'') = Some (stored_table 5)
   \<and> visual (unwrap (Plain tiny_model)) = VisualTransformer tiny_vit
   \<and> shape (stored_table 5) = 5 # [1]
   \<and> (5::nat) = (input_resolution tiny_vit div patch_size tiny_vit)
                  * (input_resolution tiny_vit div patch_size tiny_vit) + 1
   \<and> resize_pos_embed nearest
        [(''visual.positional_embedding'', stored_table 5), (''logit_scale'', stored_table 1)]
        (Plain tiny_model) []
      = Inr [(''visual.positional_embedding'', stored_table 5), (''logit_scale'', stored_table 1)]"
proof -
  have 1: "map_of [(''visual.positional_embedding'', stored_table 5),
                   (''logit_scale'', stored_table 1)]
      ([] @ ''visual.positional_embedding'') = Some (stored_table 5)" by simp
  have 2: "visual (unwrap (Plain tiny_model)) = VisualTransformer tiny_vit"
    by (simp add: unwrap_def tiny_model_def tiny_clip_def)
  have 3: "shape (stored_table 5) = 5 # [1]" by (simp add: stored_table_def)
  have 4: "(5::nat) = (input_resolution tiny_vit div patch_size tiny_vit)
                  * (input_resolution tiny_vit div patch_size tiny_vit) + 1"
    by (simp add: tiny_vit_def)
  from resize_pos_embed_same_grid [OF 1 2 3 4, of nearest]
  show ?thesis using 1 2 3 4 by simp
qed

text \<open>
  With another number of rows the table is replaced: 2 rows become the 5 of the small
  model.
\<close>

lemma resize_pos_embed_other_grid:
  "resize_pos_embed nearest [(''visual.positional_embedding'', stored_table 2)]
     (Plain tiny_model) []
   = Inr [(''visual.positional_embedding'',
           \<lparr>dtype = Float32, shape = [5, 1], elems = [0, 1, 1, 1, 1]\<rparr>)]"
  by (simp add: resize_pos_embed_def visual_grid_size_def to_2tuple_def ntuple_def index_def
      shape0_def bind_def Let_def unwrap_def tiny_model_def tiny_clip_def tiny_grid
      stored_table_def slice0_def row_size_def isqrt_def resample_def numel_def nearest_def
      cat0_def promote_def upt_conv_Cons numeral_2_eq_2 numeral_3_eq_3)

end
